theory Spec2Isabelle
  imports
    Main
    "HOL-Library.Char_ord"
    "HOL-Library.List_Lexorder"
    "HOL-Library.Product_Lexorder"
begin

section \<open>Announcement endpoints of the High School Management System API\<close>

text \<open>
  A shallow embedding of \<^verbatim>\<open>src/backend/routers/announcements.py\<close>. Python strings are
  byte strings (\<^typ>\<open>string\<close>, UTF-8); their order is the lexicographic order of
  \<^theory_text>\<open>List_Lexorder\<close> over the byte order of \<^theory_text>\<open>Char_ord\<close>, which is how
  Python compares \<^verbatim>\<open>str\<close> values and how the store compares strings under \<^verbatim>\<open>$gte\<close>.
  The two Mongo collections are lists in insertion order. Every \<^verbatim>\<open>raise\<close> of a handler is
  an \<open>Inl\<close> result, and a mutating handler returns its result paired with the state it
  leaves behind, also when it raises.
\<close>

subsection \<open>Data model\<close>

text \<open>
  The value under \<^verbatim>\<open>_id\<close>: a bson \<^verbatim>\<open>ObjectId\<close> in the store (kept as the lower-case hex
  digits of its bytes, which is what \<^verbatim>\<open>str\<close> prints), a plain string once a handler has
  rendered it.
\<close>

datatype id_value = ObjId string | StrId string

fun str_id :: "id_value \<Rightarrow> string" where
  "str_id (ObjId h) = h"
| "str_id (StrId s) = s"

text \<open>
  The dictionary \<^verbatim>\<open>announcement_doc\<close> that \<^verbatim>\<open>create_announcement\<close> builds. The fields the
  request model declares \<^verbatim>\<open>Optional\<close> may hold \<^verbatim>\<open>None\<close>.
\<close>

record announcement_doc =
  title :: string
  message :: string
  priority :: "string option"
  start_date :: "string option"
  end_date :: string
  created_by :: string
  created_at :: string
  is_active :: "bool option"

text \<open>A document of the collection: the store has added \<^verbatim>\<open>_id\<close>.\<close>

record announcement = announcement_doc +
  doc_id :: id_value

text \<open>
  The state: \<^verbatim>\<open>teachers_collection\<close> as the list of its \<^verbatim>\<open>_id\<close> values (the handlers only
  look a teacher up by \<^verbatim>\<open>_id\<close>) and \<^verbatim>\<open>announcements_collection\<close>.
\<close>

record database =
  teachers_collection :: "string list"
  announcements_collection :: "announcement list"

text \<open>\<^verbatim>\<open>HTTPException(status_code, detail)\<close>; an exception no handler catches.\<close>

datatype error = HTTPException nat string | Unhandled string

text \<open>The status the client sees: an uncaught exception is answered with 500.\<close>

fun status_code :: "error \<Rightarrow> nat" where
  "status_code (HTTPException c d) = c"
| "status_code (Unhandled d) = 500"

text \<open>The JSON bodies of the successful mutating requests.\<close>

datatype response = Message string | MessageId string string

subsection \<open>The active listing\<close>

text \<open>
  The query \<^verbatim>\<open>{"is_active": True, "end_date": {"$gte": current_date}}\<close>: the flag must be
  the boolean true (a stored \<^verbatim>\<open>None\<close> does not match). The filtered find returns the
  matching documents in the order of the collection.
\<close>

definition matches_query :: "string \<Rightarrow> announcement \<Rightarrow> bool" where
  "matches_query current_date a \<longleftrightarrow> is_active a = Some True \<and> current_date \<le> end_date a"

text \<open>Truth value of \<^verbatim>\<open>announcement.get("start_date")\<close>: \<^verbatim>\<open>None\<close> and \<^verbatim>\<open>""\<close> are false.\<close>

fun truthy :: "string option \<Rightarrow> bool" where
  "truthy None = False"
| "truthy (Some s) = (s \<noteq> [])"

definition render_id :: "announcement \<Rightarrow> announcement" where
  "render_id a = a\<lparr>doc_id := StrId (str_id (doc_id a))\<rparr>"

text \<open>The loop of lines 51 to 60 over the cursor, appending to \<^verbatim>\<open>announcements\<close>.\<close>

fun collect_active :: "string \<Rightarrow> announcement list \<Rightarrow> announcement list \<Rightarrow> announcement list" where
  "collect_active current_date [] announcements = announcements"
| "collect_active current_date (a # cursor) announcements =
     (if truthy (start_date a) then
        (if the (start_date a) \<le> current_date
         then collect_active current_date cursor (announcements @ [render_id a])
         else collect_active current_date cursor announcements)
      else collect_active current_date cursor (announcements @ [render_id a]))"

text \<open>\<^verbatim>\<open>priority_order.get(x.get("priority", "medium"), 1)\<close>; the key is always present.\<close>

definition priority_rank :: "string option \<Rightarrow> nat" where
  "priority_rank p =
     (if p = Some ''high'' then 0
      else if p = Some ''medium'' then 1
      else if p = Some ''low'' then 2
      else 1)"

definition sort_key_of :: "announcement \<Rightarrow> nat \<times> string" where
  "sort_key_of x = (priority_rank (priority x), created_at x)"

text \<open>
  \<^verbatim>\<open>list.sort(key=...)\<close> is stable, and a stable sort has one result: that of the stable
  insertion sort \<^const>\<open>sort_key\<close>. Tuples compare lexicographically.
\<close>

definition get_active_announcements :: "string \<Rightarrow> database \<Rightarrow> announcement list" where
  "get_active_announcements current_date db =
     sort_key sort_key_of
       (collect_active current_date
          (filter (matches_query current_date) (announcements_collection db)) [])"

subsection \<open>Parsing a date: \<^verbatim>\<open>datetime.strptime(value, "%Y-%m-%d")\<close>\<close>

text \<open>
  The standard library compiles the format to the regular expression
  \<^verbatim>\<open>(?P<Y>\d\d\d\d)-(?P<m>1[0-2]|0[1-9]|[1-9])-(?P<d>3[0-1]|[1-2]\d|0[1-9]|[1-9]| [1-9])\<close>,
  matches it at the start of the string, raises \<^verbatim>\<open>ValueError\<close> when it does not match or
  when unconverted data remains, and then builds \<^verbatim>\<open>date(year, month, day)\<close>, which raises
  \<^verbatim>\<open>ValueError\<close> for a day the month does not have and for the year 0. Each matcher below
  returns the ways its group matches a prefix, in the order the alternatives are tried, each
  with the rest of the string. So \<^verbatim>\<open>2024-1-5\<close> parses, as \<^verbatim>\<open>2024-01-05\<close> does.

  In a \<^verbatim>\<open>str\<close> pattern \<^verbatim>\<open>\d\<close> matches every Unicode decimal digit, and \<^verbatim>\<open>int\<close> reads
  each of them with its value. Decimal digits come in runs of ten, zero to nine;
  \<open>decimal_zeros\<close> lists the code point of the zero of every run (Unicode 14.0, the table
  of Python 3.11). The strings of the model are UTF-8, so a digit is read by decoding the
  code point at the head of the string.
\<close>

definition continuation :: "char \<Rightarrow> bool" where
  "continuation c \<longleftrightarrow> 128 \<le> (of_char c :: nat) \<and> (of_char c :: nat) < 192"

definition next_code_point :: "string \<Rightarrow> (nat \<times> string) option" where
  "next_code_point s =
     (case s of
        [] \<Rightarrow> None
      | a # r \<Rightarrow>
          if (of_char a :: nat) < 128 then Some (of_char a, r)
          else if (of_char a :: nat) < 192 then None
          else if (of_char a :: nat) < 224 then
            (case r of
               b # r1 \<Rightarrow>
                 if continuation b
                 then Some ((of_char a - 192) * 64 + (of_char b - 128), r1)
                 else None
             | _ \<Rightarrow> None)
          else if (of_char a :: nat) < 240 then
            (case r of
               b # c # r2 \<Rightarrow>
                 if continuation b \<and> continuation c
                 then Some ((of_char a - 224) * 4096 + (of_char b - 128) * 64
                            + (of_char c - 128), r2)
                 else None
             | _ \<Rightarrow> None)
          else if (of_char a :: nat) < 248 then
            (case r of
               b # c # d # r3 \<Rightarrow>
                 if continuation b \<and> continuation c \<and> continuation d
                 then Some ((of_char a - 240) * 262144 + (of_char b - 128) * 4096
                            + (of_char c - 128) * 64 + (of_char d - 128), r3)
                 else None
             | _ \<Rightarrow> None)
          else None)"

definition decimal_zeros :: "nat list" where
  "decimal_zeros =
     [48, 1632, 1776, 1984, 2406, 2534, 2662, 2790, 2918, 3046, 3174, 3302, 3430, 3558,
      3664, 3792, 3872, 4160, 4240, 6112, 6160, 6470, 6608, 6784, 6800, 6992, 7088, 7232,
      7248, 42528, 43216, 43264, 43472, 43504, 43600, 44016, 65296, 66720, 68912, 69734,
      69872, 69942, 70096, 70384, 70736, 70864, 71248, 71360, 71472, 71904, 72016, 72784,
      73040, 73120, 92768, 92864, 93008, 120782, 120792, 120802, 120812, 120822, 123200,
      123632, 125264, 130032]"

text \<open>The value of a code point as a decimal digit, if it is one.\<close>

definition decimal_digit :: "nat \<Rightarrow> nat option" where
  "decimal_digit cp =
     map_option (\<lambda>zero. cp - zero) (find (\<lambda>zero. zero \<le> cp \<and> cp < zero + 10) decimal_zeros)"

text \<open>\<^verbatim>\<open>\d\<close>, with the value \<^verbatim>\<open>int\<close> gives the digit.\<close>

definition match_digit :: "string \<Rightarrow> (nat \<times> string) list" where
  "match_digit s =
     (case next_code_point s of
        None \<Rightarrow> []
      | Some (cp, r) \<Rightarrow> (case decimal_digit cp of None \<Rightarrow> [] | Some v \<Rightarrow> [(v, r)]))"

text \<open>The value of an ASCII digit, for the classes the expression spells out.\<close>

definition digit_val :: "char \<Rightarrow> nat" where
  "digit_val c = of_char c - 48"

definition match_Y :: "string \<Rightarrow> (nat \<times> string) list" where
  "match_Y s =
     [(1000 * a + 100 * b + 10 * c + d, r4).
        (a, r1) \<leftarrow> match_digit s, (b, r2) \<leftarrow> match_digit r1,
        (c, r3) \<leftarrow> match_digit r2, (d, r4) \<leftarrow> match_digit r3]"

definition match_dash :: "string \<Rightarrow> string list" where
  "match_dash s = (case s of c # r \<Rightarrow> if c = CHR ''-'' then [r] else [] | [] \<Rightarrow> [])"

definition match_m :: "string \<Rightarrow> (nat \<times> string) list" where
  "match_m s =
     (case s of
        a # b # r \<Rightarrow>
          (if a = CHR ''1'' \<and> b \<in> set ''012'' then [(10 + digit_val b, r)] else []) @
          (if a = CHR ''0'' \<and> b \<in> set ''123456789'' then [(digit_val b, r)] else []) @
          (if a \<in> set ''123456789'' then [(digit_val a, b # r)] else [])
      | [a] \<Rightarrow> (if a \<in> set ''123456789'' then [(digit_val a, [])] else [])
      | [] \<Rightarrow> [])"

definition match_d :: "string \<Rightarrow> (nat \<times> string) list" where
  "match_d s =
     (case s of
        a # b # r \<Rightarrow>
          (if a = CHR ''3'' \<and> b \<in> set ''01'' then [(30 + digit_val b, r)] else []) @
          (if a \<in> set ''12''
           then [(10 * digit_val a + v, r'). (v, r') \<leftarrow> match_digit (b # r)] else []) @
          (if a = CHR ''0'' \<and> b \<in> set ''123456789'' then [(digit_val b, r)] else []) @
          (if a \<in> set ''123456789'' then [(digit_val a, b # r)] else []) @
          (if a = CHR '' '' \<and> b \<in> set ''123456789'' then [(digit_val b, r)] else [])
      | [a] \<Rightarrow> (if a \<in> set ''123456789'' then [(digit_val a, [])] else [])
      | [] \<Rightarrow> [])"

text \<open>
  \<^verbatim>\<open>format_regex.match(data_string)\<close>: the first match in backtracking order, with the text
  left after \<^verbatim>\<open>found.end()\<close>.
\<close>

definition regex_match :: "string \<Rightarrow> ((nat \<times> nat \<times> nat) \<times> string) option" where
  "regex_match s =
     (case concat (map (\<lambda>(y, r1).
             concat (map (\<lambda>r2.
               concat (map (\<lambda>(m, r3).
                 concat (map (\<lambda>r4.
                   map (\<lambda>(d, r5). ((y, m, d), r5)) (match_d r4)) (match_dash r3)))
                 (match_m r2))) (match_dash r1))) (match_Y s)) of
        [] \<Rightarrow> None
      | found # _ \<Rightarrow> Some found)"

definition is_leap :: "nat \<Rightarrow> bool" where
  "is_leap y \<longleftrightarrow> y mod 4 = 0 \<and> (y mod 100 \<noteq> 0 \<or> y mod 400 = 0)"

definition days_in_month :: "nat \<Rightarrow> nat \<Rightarrow> nat" where
  "days_in_month y m =
     (if m = 2 then (if is_leap y then 29 else 28)
      else if m \<in> {4, 6, 9, 11} then 30 else 31)"

text \<open>The checks of the \<^verbatim>\<open>date\<close> constructor.\<close>

definition valid_ymd :: "nat \<times> nat \<times> nat \<Rightarrow> bool" where
  "valid_ymd t =
     (case t of (y, m, d) \<Rightarrow>
        1 \<le> y \<and> y \<le> 9999 \<and> 1 \<le> m \<and> m \<le> 12 \<and> 1 \<le> d \<and> d \<le> days_in_month y m)"

text \<open>The parsed date, or \<open>None\<close> for \<^verbatim>\<open>ValueError\<close>.\<close>

definition strptime :: "string \<Rightarrow> (nat \<times> nat \<times> nat) option" where
  "strptime data_string =
     (case regex_match data_string of
        None \<Rightarrow> None
      | Some (t, rest) \<Rightarrow> if rest \<noteq> [] then None else if valid_ymd t then Some t else None)"

subsection \<open>The store\<close>

text \<open>
  \<^verbatim>\<open>ObjectId(announcement_id)\<close> for a string: bson takes a string of 24 characters that
  \<^verbatim>\<open>bytes.fromhex\<close> accepts, keeps the bytes it yields, and raises \<^verbatim>\<open>InvalidId\<close> (here
  \<open>None\<close>) for any other string. \<^verbatim>\<open>bytes.fromhex\<close> reads two hex digits for a byte and skips
  ASCII whitespace before each byte and at the end, so twenty-four characters need not give
  twelve bytes; any other character, or a single digit, is a \<^verbatim>\<open>ValueError\<close>. The bytes are
  kept as their lower-case hex digits, which is what \<^verbatim>\<open>str\<close> prints; identifiers are equal
  when their bytes are.
\<close>

definition is_hex :: "char \<Rightarrow> bool" where
  "is_hex c \<longleftrightarrow> c \<in> set ''0123456789abcdefABCDEF''"

definition is_space :: "char \<Rightarrow> bool" where
  "is_space c \<longleftrightarrow> c \<in> set [CHR '' '', CHR 0x09, CHR 0x0A, CHR 0x0B, CHR 0x0C, CHR 0x0D]"

definition lower_hex :: "char \<Rightarrow> char" where
  "lower_hex c =
     (if c = CHR ''A'' then CHR ''a'' else if c = CHR ''B'' then CHR ''b''
      else if c = CHR ''C'' then CHR ''c'' else if c = CHR ''D'' then CHR ''d''
      else if c = CHR ''E'' then CHR ''e'' else if c = CHR ''F'' then CHR ''f'' else c)"

fun fromhex :: "string \<Rightarrow> string option" where
  "fromhex [] = Some []"
| "fromhex [c] = (if is_space c then Some [] else None)"
| "fromhex (c # d # s) =
     (if is_space c then fromhex (d # s)
      else if is_hex c \<and> is_hex d
      then map_option (\<lambda>h. lower_hex c # lower_hex d # h) (fromhex s)
      else None)"

definition ObjectId :: "string \<Rightarrow> id_value option" where
  "ObjectId oid = (if length oid = 24 then map_option ObjId (fromhex oid) else None)"

text \<open>
  Modelled from the spec: \<^verbatim>\<open>teachers_collection\<close> and \<^verbatim>\<open>announcements_collection\<close> are
  declared in the \<^verbatim>\<open>database\<close> module, which is not among the sources. The specification
  describes a staff directory with an existence lookup by identifier, and an announcement
  store with insert, filtered find, filtered partial update and filtered delete of single
  records, each reporting its effect. The operations of this subsection follow that
  description, in the shape of the Mongo driver calls the handlers make.

  \<^verbatim>\<open>teachers_collection.find_one({"_id": teacher_username})\<close> is not \<^verbatim>\<open>None\<close>.
\<close>

definition find_teacher :: "database \<Rightarrow> string \<Rightarrow> bool" where
  "find_teacher db teacher_username \<longleftrightarrow> teacher_username \<in> set (teachers_collection db)"

text \<open>
  Modelled from the spec: the filtered find of one record, \<^verbatim>\<open>find_one({"_id": i})\<close>; the
  first document with that \<^verbatim>\<open>_id\<close>, or \<^verbatim>\<open>None\<close>.
\<close>

definition find_one :: "id_value \<Rightarrow> announcement list \<Rightarrow> announcement option" where
  "find_one i coll = find (\<lambda>a. doc_id a = i) coll"

definition with_id :: "id_value \<Rightarrow> announcement_doc \<Rightarrow> announcement" where
  "with_id i d =
     \<lparr>title = title d, message = message d, priority = priority d,
      start_date = start_date d, end_date = end_date d, created_by = created_by d,
      created_at = created_at d, is_active = is_active d, doc_id = i\<rparr>"

text \<open>
  Modelled from the spec: the insert, which returns the generated identifier.
  \<^verbatim>\<open>insert_one(doc)\<close>: the driver gives the document the \<^verbatim>\<open>ObjectId\<close> it has generated
  (\<open>generated\<close>, its hex digits) and the store appends it; the result carries
  \<^verbatim>\<open>inserted_id\<close>. An \<^verbatim>\<open>_id\<close> already in the collection is a \<^verbatim>\<open>DuplicateKeyError\<close>.
\<close>

definition insert_one ::
  "string \<Rightarrow> announcement_doc \<Rightarrow> announcement list \<Rightarrow> (string + id_value) \<times> announcement list" where
  "insert_one generated doc coll =
     (if ObjId generated \<in> set (map doc_id coll) then (Inl ''DuplicateKeyError'', coll)
      else (Inr (ObjId generated), coll @ [with_id (ObjId generated) doc]))"

text \<open>Values of the update payload: \<^verbatim>\<open>None\<close>, a \<^verbatim>\<open>str\<close>, a \<^verbatim>\<open>bool\<close>.\<close>

datatype pyval = PyNone | PyStr string | PyBool bool

fun py_truthy :: "pyval \<Rightarrow> bool" where
  "py_truthy PyNone = False"
| "py_truthy (PyStr s) = (s \<noteq> [])"
| "py_truthy (PyBool b) = b"

text \<open>
  Modelled from the spec: the partial update of the supplied fields only.
  \<^verbatim>\<open>{"$set": update_data}\<close> on one document, key by key. The request model makes every text
  field a \<^verbatim>\<open>str\<close> and \<^verbatim>\<open>is_active\<close> a \<^verbatim>\<open>bool\<close>, and the handler drops \<^verbatim>\<open>None\<close>; a pair
  of any other shape cannot reach the store and leaves the document as it is.
\<close>

fun set_field :: "string \<times> pyval \<Rightarrow> announcement \<Rightarrow> announcement" where
  "set_field (k, PyStr v) a =
     (if k = ''title'' then a\<lparr>title := v\<rparr>
      else if k = ''message'' then a\<lparr>message := v\<rparr>
      else if k = ''priority'' then a\<lparr>priority := Some v\<rparr>
      else if k = ''start_date'' then a\<lparr>start_date := Some v\<rparr>
      else if k = ''end_date'' then a\<lparr>end_date := v\<rparr>
      else a)"
| "set_field (k, PyBool v) a = (if k = ''is_active'' then a\<lparr>is_active := Some v\<rparr> else a)"
| "set_field (k, PyNone) a = a"

text \<open>
  Modelled from the spec: the filtered partial update and the number of records it reports
  as modified, which is zero also when the supplied values are those the record holds.
  \<^verbatim>\<open>update_one({"_id": i}, {"$set": update_data})\<close>: the first matching document is
  rewritten; \<^verbatim>\<open>modified_count\<close> is 1 when that changed it, 0 when nothing matched or the
  document already held these values.
\<close>

fun update_one :: "id_value \<Rightarrow> (string \<times> pyval) list \<Rightarrow> announcement list \<Rightarrow> nat \<times> announcement list" where
  "update_one i update_data [] = (0, [])"
| "update_one i update_data (a # coll) =
     (if doc_id a = i
      then (if fold set_field update_data a = a then 0 else 1, fold set_field update_data a # coll)
      else (fst (update_one i update_data coll), a # snd (update_one i update_data coll)))"

text \<open>
  Modelled from the spec: the filtered delete of one record and the number of records it
  reports as removed. \<^verbatim>\<open>delete_one({"_id": i})\<close>: \<^verbatim>\<open>deleted_count\<close> and the collection
  left.
\<close>

fun delete_one :: "id_value \<Rightarrow> announcement list \<Rightarrow> nat \<times> announcement list" where
  "delete_one i [] = (0, [])"
| "delete_one i (a # coll) =
     (if doc_id a = i then (1, coll)
      else (fst (delete_one i coll), a # snd (delete_one i coll)))"

subsection \<open>Listing every announcement\<close>

text \<open>
  \<^verbatim>\<open>find().sort("created_at", -1)\<close>, newest first (modelled from the spec, as the store is:
  every record, sorted by \<^verbatim>\<open>created_at\<close> descending). The store does not say in which order
  it returns documents with equal \<^verbatim>\<open>created_at\<close>; the model reverses the stable ascending
  sort.
\<close>

definition get_all_announcements :: "string option \<Rightarrow> database \<Rightarrow> error + announcement list" where
  "get_all_announcements teacher_username db =
     (if \<not> truthy teacher_username
      then Inl (HTTPException 401 ''Authentication required for this action'')
      else if \<not> find_teacher db (the teacher_username)
      then Inl (HTTPException 401 ''Invalid teacher credentials'')
      else Inr (map render_id (rev (sort_key created_at (announcements_collection db)))))"

subsection \<open>Creating an announcement\<close>

text \<open>The request body after pydantic has filled in the defaults of \<^verbatim>\<open>AnnouncementCreate\<close>.\<close>

record AnnouncementCreate =
  c_title :: string
  c_message :: string
  c_priority :: "string option"
  c_start_date :: "string option"
  c_end_date :: string
  c_is_active :: "bool option"

text \<open>The \<^verbatim>\<open>try\<close> block of lines 110 to 113: true when a \<^verbatim>\<open>ValueError\<close> is raised.\<close>

definition create_dates_raise :: "AnnouncementCreate \<Rightarrow> bool" where
  "create_dates_raise announcement_data \<longleftrightarrow>
     (if truthy (c_start_date announcement_data)
      then strptime (the (c_start_date announcement_data)) = None
           \<or> strptime (c_end_date announcement_data) = None
      else strptime (c_end_date announcement_data) = None)"

definition announcement_doc_of :: "string \<Rightarrow> AnnouncementCreate \<Rightarrow> string \<Rightarrow> announcement_doc" where
  "announcement_doc_of now announcement_data teacher_username =
     \<lparr>title = c_title announcement_data,
      message = c_message announcement_data,
      priority = c_priority announcement_data,
      start_date = c_start_date announcement_data,
      end_date = c_end_date announcement_data,
      created_by = teacher_username,
      created_at = now,
      is_active = c_is_active announcement_data\<rparr>"

text \<open>Truth value of \<^verbatim>\<open>result.inserted_id\<close>.\<close>

fun id_truthy :: "id_value \<Rightarrow> bool" where
  "id_truthy (ObjId h) = True"
| "id_truthy (StrId s) = (s \<noteq> [])"

text \<open>
  \<open>now\<close> is \<^verbatim>\<open>datetime.now().isoformat()\<close> and \<open>generated\<close> the \<^verbatim>\<open>ObjectId\<close> the driver
  makes for the new document.
\<close>

definition create_announcement ::
  "string \<Rightarrow> string \<Rightarrow> AnnouncementCreate \<Rightarrow> string \<Rightarrow> database \<Rightarrow> (error + response) \<times> database" where
  "create_announcement now generated announcement_data teacher_username db =
     (if \<not> find_teacher db teacher_username
      then (Inl (HTTPException 401 ''Invalid teacher credentials''), db)
      else if create_dates_raise announcement_data
      then (Inl (HTTPException 400 ''Invalid date format. Use YYYY-MM-DD''), db)
      else
        (case insert_one generated (announcement_doc_of now announcement_data teacher_username)
                (announcements_collection db) of
           (Inl exn, coll) \<Rightarrow> (Inl (Unhandled exn), db\<lparr>announcements_collection := coll\<rparr>)
         | (Inr inserted_id, coll) \<Rightarrow>
             (if \<not> id_truthy inserted_id
              then (Inl (HTTPException 500 ''Failed to create announcement''),
                    db\<lparr>announcements_collection := coll\<rparr>)
              else (Inr (MessageId ''Announcement created successfully'' (str_id inserted_id)),
                    db\<lparr>announcements_collection := coll\<rparr>))))"

subsection \<open>Updating an announcement\<close>

text \<open>
  A field of \<^verbatim>\<open>AnnouncementUpdate\<close>: left out of the body, sent as \<^verbatim>\<open>null\<close>, or sent with
  a value.
\<close>

datatype 'a body_field = Unset | Null | Val 'a

record AnnouncementUpdate =
  u_title :: "string body_field"
  u_message :: "string body_field"
  u_priority :: "string body_field"
  u_start_date :: "string body_field"
  u_end_date :: "string body_field"
  u_is_active :: "bool body_field"

fun item :: "string \<Rightarrow> ('a \<Rightarrow> pyval) \<Rightarrow> 'a body_field \<Rightarrow> (string \<times> pyval) list" where
  "item k conv Unset = []"
| "item k conv Null = [(k, PyNone)]"
| "item k conv (Val v) = [(k, conv v)]"

text \<open>\<^verbatim>\<open>announcement_data.dict(exclude_unset=True).items()\<close>, in the order of the fields.\<close>

definition dict_exclude_unset :: "AnnouncementUpdate \<Rightarrow> (string \<times> pyval) list" where
  "dict_exclude_unset d =
     item ''title'' PyStr (u_title d) @ item ''message'' PyStr (u_message d) @
     item ''priority'' PyStr (u_priority d) @ item ''start_date'' PyStr (u_start_date d) @
     item ''end_date'' PyStr (u_end_date d) @ item ''is_active'' PyBool (u_is_active d)"

text \<open>\<^verbatim>\<open>datetime.strptime(value, "%Y-%m-%d")\<close> raises \<^verbatim>\<open>ValueError\<close>.\<close>

fun value_error :: "pyval \<Rightarrow> bool" where
  "value_error (PyStr s) = (strptime s = None)"
| "value_error v = False"

text \<open>
  The loop of lines 166 to 175. The keys of the items are distinct, so assigning
  \<^verbatim>\<open>update_data[field]\<close> appends a pair.
\<close>

fun prepare_update ::
  "(string \<times> pyval) list \<Rightarrow> (string \<times> pyval) list \<Rightarrow> error + (string \<times> pyval) list" where
  "prepare_update [] update_data = Inr update_data"
| "prepare_update ((field, v) # items) update_data =
     (if v \<noteq> PyNone then
        (if field \<in> set [''start_date'', ''end_date''] \<and> py_truthy v \<and> value_error v
         then Inl (HTTPException 400 (''Invalid '' @ field @ '' format. Use YYYY-MM-DD''))
         else prepare_update items (update_data @ [(field, v)]))
      else prepare_update items update_data)"

definition update_announcement ::
  "string \<Rightarrow> AnnouncementUpdate \<Rightarrow> string \<Rightarrow> database \<Rightarrow> (error + response) \<times> database" where
  "update_announcement announcement_id announcement_data teacher_username db =
     (if \<not> find_teacher db teacher_username
      then (Inl (HTTPException 401 ''Invalid teacher credentials''), db)
      else
        (case ObjectId announcement_id of
           None \<Rightarrow> (Inl (HTTPException 400 ''Invalid announcement ID''), db)
         | Some oid \<Rightarrow>
             (case find_one oid (announcements_collection db) of
                None \<Rightarrow> (Inl (HTTPException 404 ''Announcement not found''), db)
              | Some announcement \<Rightarrow>
                  (case prepare_update (dict_exclude_unset announcement_data) [] of
                     Inl e \<Rightarrow> (Inl e, db)
                   | Inr update_data \<Rightarrow>
                       (if update_data = []
                        then (Inl (HTTPException 400 ''No valid fields to update''), db)
                        else
                          (case update_one oid update_data (announcements_collection db) of
                             (modified_count, coll) \<Rightarrow>
                               (if modified_count = 0
                                then (Inl (HTTPException 500 ''Failed to update announcement''),
                                      db\<lparr>announcements_collection := coll\<rparr>)
                                else (Inr (Message ''Announcement updated successfully''),
                                      db\<lparr>announcements_collection := coll\<rparr>))))))))"

subsection \<open>Deleting an announcement\<close>

definition delete_announcement ::
  "string \<Rightarrow> string \<Rightarrow> database \<Rightarrow> (error + response) \<times> database" where
  "delete_announcement announcement_id teacher_username db =
     (if \<not> find_teacher db teacher_username
      then (Inl (HTTPException 401 ''Invalid teacher credentials''), db)
      else
        (case ObjectId announcement_id of
           None \<Rightarrow> (Inl (HTTPException 400 ''Invalid announcement ID''), db)
         | Some oid \<Rightarrow>
             (case delete_one oid (announcements_collection db) of
                (deleted_count, coll) \<Rightarrow>
                  (if deleted_count = 0
                   then (Inl (HTTPException 404 ''Announcement not found''),
                         db\<lparr>announcements_collection := coll\<rparr>)
                   else (Inr (Message ''Announcement deleted successfully''),
                         db\<lparr>announcements_collection := coll\<rparr>)))))"

subsection \<open>What the specification asks of the active listing\<close>

text \<open>
  In the specification's words: a record is displayed when \<^verbatim>\<open>is_active = true\<close>, its
  \<^verbatim>\<open>end_date\<close> is today or later, and its \<^verbatim>\<open>start_date\<close> is absent or is today or earlier,
  all by string comparison.
\<close>

definition spec_displayed :: "string \<Rightarrow> announcement \<Rightarrow> bool" where
  "spec_displayed today a \<longleftrightarrow>
     is_active a = Some True \<and> today \<le> end_date a \<and>
     (case start_date a of None \<Rightarrow> True | Some s \<Rightarrow> s \<le> today)"

subsection \<open>A small school\<close>

text \<open>Concrete data on which the theorems below are instantiated.\<close>

definition exams :: announcement where
  "exams =
     \<lparr>title = ''Exam week'', message = ''Exams start on Monday'', priority = Some ''low'',
      start_date = None, end_date = ''2024-06-30'', created_by = ''mrodriguez'',
      created_at = ''2024-05-01T09:00:00'', is_active = Some True,
      doc_id = ObjId ''507f1f77bcf86cd799439011''\<rparr>"

definition closure :: announcement where
  "closure =
     \<lparr>title = ''Snow day'', message = ''School is closed'', priority = Some ''high'',
      start_date = Some ''2024-05-01'', end_date = ''2024-05-31'', created_by = ''mrodriguez'',
      created_at = ''2024-05-02T10:00:00'', is_active = Some True,
      doc_id = ObjId ''507f1f77bcf86cd799439012''\<rparr>"

definition retired :: announcement where
  "retired =
     \<lparr>title = ''Old notice'', message = ''Withdrawn'', priority = Some ''high'',
      start_date = None, end_date = ''2024-12-31'', created_by = ''mrodriguez'',
      created_at = ''2024-04-01T08:00:00'', is_active = Some False,
      doc_id = ObjId ''507f1f77bcf86cd799439013''\<rparr>"

definition fair :: announcement where
  "fair =
     \<lparr>title = ''Science fair'', message = ''Sign up now'', priority = Some ''medium'',
      start_date = Some [], end_date = ''2024-07-15'', created_by = ''mchen'',
      created_at = ''2024-05-03T11:00:00'', is_active = Some True,
      doc_id = ObjId ''507f1f77bcf86cd799439014''\<rparr>"

definition picnic :: announcement where
  "picnic =
     \<lparr>title = ''Picnic'', message = ''Bring a blanket'', priority = Some ''urgent'',
      start_date = Some ''2024-05-10'', end_date = ''2024-05-10'', created_by = ''mchen'',
      created_at = ''2024-04-20T12:00:00'', is_active = Some True,
      doc_id = ObjId ''507f1f77bcf86cd799439015''\<rparr>"

definition autumn :: announcement where
  "autumn =
     \<lparr>title = ''Autumn term'', message = ''Starts in September'', priority = Some ''high'',
      start_date = Some ''2024-09-01'', end_date = ''2024-12-20'', created_by = ''mchen'',
      created_at = ''2024-05-04T13:00:00'', is_active = Some True,
      doc_id = ObjId ''507f1f77bcf86cd799439016''\<rparr>"

definition school :: database where
  "school =
     \<lparr>teachers_collection = [''mrodriguez'', ''mchen''],
      announcements_collection = [exams, closure, retired, fair, picnic, autumn]\<rparr>"

text \<open>Request bodies for \<^verbatim>\<open>create_announcement\<close>.\<close>

definition assembly :: AnnouncementCreate where
  "assembly =
     \<lparr>c_title = ''Assembly'', c_message = ''In the main hall'', c_priority = Some ''medium'',
      c_start_date = Some ''2024-05-20'', c_end_date = ''2024-05-21'', c_is_active = Some True\<rparr>"

definition bad_month :: AnnouncementCreate where
  "bad_month = assembly\<lparr>c_end_date := ''2024-13-01''\<rparr>"

definition bad_start :: AnnouncementCreate where
  "bad_start = assembly\<lparr>c_start_date := Some ''tomorrow''\<rparr>"

definition blank_start :: AnnouncementCreate where
  "blank_start = assembly\<lparr>c_start_date := Some []\<rparr>"

definition untitled :: AnnouncementCreate where
  "untitled = assembly\<lparr>c_title := []\<rparr>"

text \<open>Request bodies for \<^verbatim>\<open>update_announcement\<close>.\<close>

definition empty_body :: AnnouncementUpdate where
  "empty_body =
     \<lparr>u_title = Unset, u_message = Unset, u_priority = Unset,
      u_start_date = Unset, u_end_date = Unset, u_is_active = Unset\<rparr>"

definition null_body :: AnnouncementUpdate where
  "null_body = empty_body\<lparr>u_title := Null, u_end_date := Null, u_is_active := Null\<rparr>"

definition rename :: AnnouncementUpdate where
  "rename = empty_body\<lparr>u_title := Val ''Snow day, all week'', u_message := Null\<rparr>"

definition same_title :: AnnouncementUpdate where
  "same_title = empty_body\<lparr>u_title := Val ''Snow day''\<rparr>"

definition new_dates :: AnnouncementUpdate where
  "new_dates = empty_body\<lparr>u_start_date := Val ''2024-05-05'', u_end_date := Val ''2024-06-07''\<rparr>"

definition clear_start :: AnnouncementUpdate where
  "clear_start = empty_body\<lparr>u_start_date := Val []\<rparr>"

section \<open>Properties\<close>

lemmas school_defs =
  exams_def closure_def retired_def fair_def picnic_def autumn_def school_def

subsection \<open>The active listing\<close>

lemma render_id_fields [simp]:
  "title (render_id a) = title a"
  "message (render_id a) = message a"
  "priority (render_id a) = priority a"
  "start_date (render_id a) = start_date a"
  "end_date (render_id a) = end_date a"
  "created_by (render_id a) = created_by a"
  "created_at (render_id a) = created_at a"
  "is_active (render_id a) = is_active a"
  "doc_id (render_id a) = StrId (str_id (doc_id a))"
  by (simp_all add: render_id_def)

lemma collect_active_filter:
  "collect_active today cursor acc =
     acc @ map render_id
       (filter (\<lambda>a. case start_date a of None \<Rightarrow> True | Some s \<Rightarrow> s \<le> today) cursor)"
  by (induction cursor arbitrary: acc) (auto split: option.splits)

lemma query_then_start_date:
  "(\<lambda>a. matches_query today a \<and> (case start_date a of None \<Rightarrow> True | Some s \<Rightarrow> s \<le> today))
     = spec_displayed today"
  by (rule ext) (simp add: matches_query_def spec_displayed_def)

lemma active_listing_list:
  "get_active_announcements today db =
     sort_key sort_key_of
       (map render_id (filter (spec_displayed today) (announcements_collection db)))"
  by (simp add: get_active_announcements_def collect_active_filter query_then_start_date)

lemma school_active:
  "get_active_announcements ''2024-05-10'' school = map render_id [closure, picnic, fair, exams]"
  by (simp add: get_active_announcements_def school_defs matches_query_def render_id_def
      sort_key_of_def priority_rank_def)

text \<open>
  C1. The active listing returns exactly the stored records that are active, have not ended
  and have started (or have no start date), each with its identifier rendered as a string:
  the output is the sorted list of those records, its elements are those records and no
  others, and a record whose \<^verbatim>\<open>is_active\<close> is not true is never in it, whatever its dates.
\<close>

theorem active_listing_exact:
  "get_active_announcements today db =
     sort_key sort_key_of
       (map render_id (filter (spec_displayed today) (announcements_collection db)))
   \<and> set (get_active_announcements today db) =
       render_id ` {a \<in> set (announcements_collection db). spec_displayed today a}
   \<and> (\<forall>a. is_active a \<noteq> Some True \<longrightarrow>
         a \<notin> set (get_active_announcements today db) \<and>
         render_id a \<notin> set (get_active_announcements today db))"
proof -
  let ?out = "get_active_announcements today db"
  have elems: "set ?out = render_id ` {a \<in> set (announcements_collection db). spec_displayed today a}"
    by (simp add: active_listing_list)
  have "is_active r = Some True" if "r \<in> set ?out" for r
    using that unfolding elems by (auto simp: spec_displayed_def)
  then have "\<forall>a. is_active a \<noteq> Some True \<longrightarrow> a \<notin> set ?out \<and> render_id a \<notin> set ?out"
    by (metis render_id_fields(8))
  with active_listing_list elems show ?thesis by blast
qed

theorem active_listing_exact_witness:
  "is_active retired \<noteq> Some True
   \<and> retired \<in> set (announcements_collection school)
   \<and> render_id retired \<notin> set (get_active_announcements ''2024-05-10'' school)
   \<and> set (get_active_announcements ''2024-05-10'' school) =
       render_id ` {a \<in> set (announcements_collection school). spec_displayed ''2024-05-10'' a}
   \<and> get_active_announcements ''2024-05-10'' school = map render_id [closure, picnic, fair, exams]"
proof -
  have inactive: "is_active retired \<noteq> Some True"
    by (simp add: retired_def)
  have stored: "retired \<in> set (announcements_collection school)"
    by (simp add: school_def)
  note inst = active_listing_exact [of "''2024-05-10''" school]
  from inst have elems: "set (get_active_announcements ''2024-05-10'' school) =
      render_id ` {a \<in> set (announcements_collection school). spec_displayed ''2024-05-10'' a}"
    by (rule conjunct1 [OF conjunct2])
  note never_inactive = inst [THEN conjunct2, THEN conjunct2, rule_format, of retired]
  from never_inactive [OF inactive]
  have never: "render_id retired \<notin> set (get_active_announcements ''2024-05-10'' school)"
    by (rule conjunct2)
  show ?thesis
    by (intro conjI) (rule inactive stored never elems school_active)+
qed

lemma sort_key_le_iff:
  "sort_key_of a \<le> sort_key_of b \<longleftrightarrow>
     priority_rank (priority a) < priority_rank (priority b) \<or>
     priority_rank (priority a) = priority_rank (priority b) \<and> created_at a \<le> created_at b"
  by (auto simp: sort_key_of_def less_eq_prod_def)

lemma active_listing_keys_sorted:
  "sorted (map sort_key_of (get_active_announcements today db))"
  by (simp add: get_active_announcements_def)

lemma active_listing_pairwise:
  assumes "i < j" and "j < length (get_active_announcements today db)"
  shows "sort_key_of (get_active_announcements today db ! i)
           \<le> sort_key_of (get_active_announcements today db ! j)"
proof -
  let ?keys = "map sort_key_of (get_active_announcements today db)"
  have "sorted ?keys" by (rule active_listing_keys_sorted)
  moreover have "i \<le> j" and "j < length ?keys" using assms by simp_all
  ultimately have "?keys ! i \<le> ?keys ! j" by (rule sorted_nth_mono)
  then show ?thesis using assms by simp
qed

text \<open>
  C2. The output of the active listing is sorted by the pair (priority rank,
  \<^verbatim>\<open>created_at\<close>), where high has rank 0, medium 1, low 2 and any other priority the rank of
  medium: of two output records the earlier has the smaller rank, or the same rank and a
  \<^verbatim>\<open>created_at\<close> that is not later; so a record of smaller rank always comes first, every
  high record before every medium and every low one, every medium record before every low
  one.
\<close>

theorem active_listing_sorted:
  "sorted (map sort_key_of (get_active_announcements today db))
   \<and> (\<forall>i j. i < j \<and> j < length (get_active_announcements today db) \<longrightarrow>
         priority_rank (priority (get_active_announcements today db ! i))
           < priority_rank (priority (get_active_announcements today db ! j))
         \<or> priority_rank (priority (get_active_announcements today db ! i))
             = priority_rank (priority (get_active_announcements today db ! j))
           \<and> created_at (get_active_announcements today db ! i)
               \<le> created_at (get_active_announcements today db ! j))
   \<and> (\<forall>i j. i < length (get_active_announcements today db)
          \<and> j < length (get_active_announcements today db)
          \<and> priority_rank (priority (get_active_announcements today db ! i))
              < priority_rank (priority (get_active_announcements today db ! j)) \<longrightarrow> i < j)
   \<and> (\<forall>i j. i < length (get_active_announcements today db)
          \<and> j < length (get_active_announcements today db)
          \<and> priority (get_active_announcements today db ! i) = Some ''high''
          \<and> (priority (get_active_announcements today db ! j) = Some ''medium''
             \<or> priority (get_active_announcements today db ! j) = Some ''low'') \<longrightarrow> i < j)
   \<and> (\<forall>i j. i < length (get_active_announcements today db)
          \<and> j < length (get_active_announcements today db)
          \<and> priority (get_active_announcements today db ! i) = Some ''medium''
          \<and> priority (get_active_announcements today db ! j) = Some ''low'' \<longrightarrow> i < j)
   \<and> priority_rank (Some ''high'') = 0
   \<and> priority_rank (Some ''medium'') = 1
   \<and> priority_rank (Some ''low'') = 2
   \<and> (\<forall>p. p \<noteq> Some ''high'' \<and> p \<noteq> Some ''medium'' \<and> p \<noteq> Some ''low'' \<longrightarrow>
         priority_rank p = priority_rank (Some ''medium''))"
proof -
  let ?out = "get_active_announcements today db"
  let ?rank = "\<lambda>i. priority_rank (priority (?out ! i))"
  have pair: "?rank i < ?rank j \<or> ?rank i = ?rank j \<and> created_at (?out ! i) \<le> created_at (?out ! j)"
    if "i < j" "j < length ?out" for i j
    using active_listing_pairwise [OF that] by (simp add: sort_key_le_iff)
  have first: "i < j" if "i < length ?out" "j < length ?out" "?rank i < ?rank j" for i j
  proof (rule ccontr)
    assume "\<not> i < j"
    then consider "i = j" | "j < i" by linarith
    then show False
    proof cases
      case 1
      with that show False by simp
    next
      case 2
      from pair [OF 2 that(1)] that(3) show False by simp
    qed
  qed
  have ranks: "priority_rank (Some ''high'') = 0" "priority_rank (Some ''medium'') = 1"
    "priority_rank (Some ''low'') = 2"
    by (simp_all add: priority_rank_def)
  have high: "i < j" if "i < length ?out" "j < length ?out" "priority (?out ! i) = Some ''high''"
    "priority (?out ! j) = Some ''medium'' \<or> priority (?out ! j) = Some ''low''" for i j
    using that first [of i j] by (auto simp: priority_rank_def)
  have medium: "i < j" if "i < length ?out" "j < length ?out"
    "priority (?out ! i) = Some ''medium''" "priority (?out ! j) = Some ''low''" for i j
    using that first [of i j] by (auto simp: priority_rank_def)
  show ?thesis
  proof (intro conjI allI impI)
    show "sorted (map sort_key_of ?out)"
      by (rule active_listing_keys_sorted)
  next
    fix i j
    assume "i < j \<and> j < length ?out"
    then show "?rank i < ?rank j
        \<or> ?rank i = ?rank j \<and> created_at (?out ! i) \<le> created_at (?out ! j)"
      using pair [of i j] by simp
  next
    fix i j
    assume "i < length ?out \<and> j < length ?out \<and> ?rank i < ?rank j"
    then show "i < j"
      using first [of i j] by simp
  next
    fix i j
    assume "i < length ?out \<and> j < length ?out \<and> priority (?out ! i) = Some ''high''
        \<and> (priority (?out ! j) = Some ''medium'' \<or> priority (?out ! j) = Some ''low'')"
    then show "i < j"
      using high [of i j] by simp
  next
    fix i j
    assume "i < length ?out \<and> j < length ?out \<and> priority (?out ! i) = Some ''medium''
        \<and> priority (?out ! j) = Some ''low''"
    then show "i < j"
      using medium [of i j] by simp
  next
    fix p :: "string option"
    assume "p \<noteq> Some ''high'' \<and> p \<noteq> Some ''medium'' \<and> p \<noteq> Some ''low''"
    then show "priority_rank p = priority_rank (Some ''medium'')"
      by (simp add: priority_rank_def)
  qed (rule ranks)+
qed

theorem active_listing_sorted_witness:
  "length (get_active_announcements ''2024-05-10'' school) = 4
   \<and> priority (get_active_announcements ''2024-05-10'' school ! 0) = Some ''high''
   \<and> priority (get_active_announcements ''2024-05-10'' school ! 1) = Some ''urgent''
   \<and> priority (get_active_announcements ''2024-05-10'' school ! 2) = Some ''medium''
   \<and> priority (get_active_announcements ''2024-05-10'' school ! 3) = Some ''low''
   \<and> priority_rank (Some ''urgent'') = priority_rank (Some ''medium'')
   \<and> created_at (get_active_announcements ''2024-05-10'' school ! 1)
       \<le> created_at (get_active_announcements ''2024-05-10'' school ! 2)
   \<and> sorted (map sort_key_of (get_active_announcements ''2024-05-10'' school))"
proof -
  let ?out = "get_active_announcements ''2024-05-10'' school"
  have shape: "length ?out = 4" "priority (?out ! 0) = Some ''high''"
    "priority (?out ! 1) = Some ''urgent''" "priority (?out ! 2) = Some ''medium''"
    "priority (?out ! 3) = Some ''low''"
    by (simp_all add: school_active exams_def closure_def fair_def picnic_def)
  have urgent: "Some ''urgent'' \<noteq> Some ''high'' \<and> Some ''urgent'' \<noteq> Some ''medium''
      \<and> Some ''urgent'' \<noteq> Some ''low''"
    by simp
  have order: "(1::nat) < 2 \<and> 2 < length ?out"
    by (simp add: shape)
  note inst = active_listing_sorted [of "''2024-05-10''" school]
  from inst have keys: "sorted (map sort_key_of ?out)"
    by (rule conjunct1)
  note others = inst [THEN conjunct2, THEN conjunct2, THEN conjunct2, THEN conjunct2,
      THEN conjunct2, THEN conjunct2, THEN conjunct2, THEN conjunct2, rule_format,
      of "Some ''urgent''"]
  from others [OF urgent]
  have same: "priority_rank (Some ''urgent'') = priority_rank (Some ''medium'')" .
  note pairs = inst [THEN conjunct2, THEN conjunct1, rule_format, of 1 2]
  from pairs [OF order] have
    "priority_rank (priority (?out ! 1)) < priority_rank (priority (?out ! 2))
     \<or> priority_rank (priority (?out ! 1)) = priority_rank (priority (?out ! 2))
       \<and> created_at (?out ! 1) \<le> created_at (?out ! 2)" .
  with same have ties: "created_at (?out ! 1) \<le> created_at (?out ! 2)"
    by (simp only: shape) simp
  show ?thesis
    by (intro conjI) (rule shape same ties keys)+
qed

subsection \<open>The store\<close>

lemma find_one_None_iff: "find_one i coll = None \<longleftrightarrow> i \<notin> doc_id ` set coll"
  by (auto simp: find_one_def find_None_iff)

lemma school_teachers: "find_teacher school ''mchen''" "find_teacher school ''mrodriguez''"
  "\<not> find_teacher school ''nobody''"
  by (simp_all add: find_teacher_def school_def)

lemma school_ids:
  "map doc_id (announcements_collection school) =
     [ObjId ''507f1f77bcf86cd799439011'', ObjId ''507f1f77bcf86cd799439012'',
      ObjId ''507f1f77bcf86cd799439013'', ObjId ''507f1f77bcf86cd799439014'',
      ObjId ''507f1f77bcf86cd799439015'', ObjId ''507f1f77bcf86cd799439016'']"
  by (simp add: school_defs)

lemma ObjectId_examples:
  "ObjectId ''not-an-id'' = None"
  "ObjectId ''507f1f77bcf86cd7994390ff'' = Some (ObjId ''507f1f77bcf86cd7994390ff'')"
  "ObjectId ''507f1f77bcf86cd799439012'' = Some (ObjId ''507f1f77bcf86cd799439012'')"
  "ObjectId ''507F1F77BCF86CD799439012'' = Some (ObjId ''507f1f77bcf86cd799439012'')"
  "ObjectId ''507f1f77bcf86cd79943 90 '' = Some (ObjId ''507f1f77bcf86cd7994390'')"
  "ObjectId ''507f1f77bcf86cd7994 3 90'' = None"
  by (simp_all add: ObjectId_def is_hex_def is_space_def lower_hex_def)

lemma missing_id: "ObjId ''507f1f77bcf86cd7994390ff'' \<notin> doc_id ` set (announcements_collection school)"
proof -
  have "ObjId ''507f1f77bcf86cd7994390ff'' \<notin> set (map doc_id (announcements_collection school))"
    unfolding school_ids by simp
  then show ?thesis by simp
qed

lemma spaced_id: "ObjId ''507f1f77bcf86cd7994390'' \<notin> doc_id ` set (announcements_collection school)"
proof -
  have "ObjId ''507f1f77bcf86cd7994390'' \<notin> set (map doc_id (announcements_collection school))"
    unfolding school_ids by simp
  then show ?thesis by simp
qed

subsection \<open>Updating: the target identifier\<close>

text \<open>
  C3, as the code has it. For a caller the staff directory knows, an update whose target
  identifier is not a valid identifier (one \<^verbatim>\<open>ObjectId\<close> refuses) fails with 400 "Invalid
  announcement ID", and an update whose target identifier is valid but matches no record
  fails with 404 "Announcement not found"; neither changes the store. The two conditions
  are reported apart, not as one.
\<close>

theorem update_target_errors:
  assumes "find_teacher db teacher_username"
  shows "(ObjectId announcement_id = None \<longrightarrow>
            update_announcement announcement_id announcement_data teacher_username db
              = (Inl (HTTPException 400 ''Invalid announcement ID''), db))
         \<and> (\<forall>oid. ObjectId announcement_id = Some oid
                \<and> oid \<notin> doc_id ` set (announcements_collection db) \<longrightarrow>
            update_announcement announcement_id announcement_data teacher_username db
              = (Inl (HTTPException 404 ''Announcement not found''), db))"
  using assms by (simp add: update_announcement_def find_one_None_iff [symmetric])

theorem update_target_errors_witness:
  "find_teacher school ''mchen''
   \<and> ObjectId ''not-an-id'' = None
   \<and> update_announcement ''not-an-id'' rename ''mchen'' school
       = (Inl (HTTPException 400 ''Invalid announcement ID''), school)
   \<and> ObjectId ''507f1f77bcf86cd7994390ff'' = Some (ObjId ''507f1f77bcf86cd7994390ff'')
   \<and> ObjId ''507f1f77bcf86cd7994390ff'' \<notin> doc_id ` set (announcements_collection school)
   \<and> update_announcement ''507f1f77bcf86cd7994390ff'' rename ''mchen'' school
       = (Inl (HTTPException 404 ''Announcement not found''), school)
   \<and> ObjectId ''507f1f77bcf86cd79943 90 '' = Some (ObjId ''507f1f77bcf86cd7994390'')
   \<and> ObjId ''507f1f77bcf86cd7994390'' \<notin> doc_id ` set (announcements_collection school)
   \<and> update_announcement ''507f1f77bcf86cd79943 90 '' rename ''mchen'' school
       = (Inl (HTTPException 404 ''Announcement not found''), school)"
proof -
  note invalid = update_target_errors [OF school_teachers(1), THEN conjunct1, rule_format,
      of "''not-an-id''" rename]
  note missing = update_target_errors [OF school_teachers(1), THEN conjunct2, rule_format,
      of "''507f1f77bcf86cd7994390ff''" "ObjId ''507f1f77bcf86cd7994390ff''" rename]
  note spaced = update_target_errors [OF school_teachers(1), THEN conjunct2, rule_format,
      of "''507f1f77bcf86cd79943 90 ''" "ObjId ''507f1f77bcf86cd7994390''" rename]
  show ?thesis
    by (intro conjI)
      (rule school_teachers ObjectId_examples missing_id spaced_id
        invalid [OF ObjectId_examples(1)]
        missing [OF conjI [OF ObjectId_examples(2) missing_id]]
        spaced [OF conjI [OF ObjectId_examples(5) spaced_id]])+
qed

text \<open>
  The claim as it was stated fails: the invalid identifier is answered with 400 "Invalid
  announcement ID", which is not the not-found error a missing record is answered with.
\<close>

theorem update_invalid_id_counterexample:
  "ObjectId ''not-an-id'' = None
   \<and> fst (update_announcement ''not-an-id'' rename ''mchen'' school)
       = Inl (HTTPException 400 ''Invalid announcement ID'')
   \<and> fst (update_announcement ''507f1f77bcf86cd7994390ff'' rename ''mchen'' school)
       = Inl (HTTPException 404 ''Announcement not found'')
   \<and> fst (update_announcement ''not-an-id'' rename ''mchen'' school)
       \<noteq> fst (update_announcement ''507f1f77bcf86cd7994390ff'' rename ''mchen'' school)"
  by (simp add: update_announcement_def school_teachers ObjectId_examples
      find_one_None_iff [THEN iffD2, OF missing_id])

subsection \<open>Creating: the rejections\<close>

lemma strptime_examples:
  "strptime [] = None"
  "strptime ''2024-13-01'' = None"
  "strptime ''tomorrow'' = None"
  "strptime ''2024-05-20'' = Some (2024, 5, 20)"
  "strptime ''2024-05-21'' = Some (2024, 5, 21)"
  "strptime ''2024-05-05'' = Some (2024, 5, 5)"
  "strptime ''2024-06-07'' = Some (2024, 6, 7)"
  "strptime ''2024-1-5'' = Some (2024, 1, 5)"
  "strptime (''2024-05-2'' @ [CHR 0xD9, CHR 0xA1]) = Some (2024, 5, 21)"
  "strptime ''2024-02-30'' = None"
  by (simp_all add: strptime_def regex_match_def match_Y_def match_dash_def match_m_def
      match_d_def match_digit_def next_code_point_def continuation_def decimal_digit_def
      decimal_zeros_def digit_val_def valid_ymd_def days_in_month_def is_leap_def)

text \<open>
  C4, as the code has it. Create fails with 401 when the staff identifier does not resolve,
  and, for a staff identifier that resolves, with 400 when \<^verbatim>\<open>end_date\<close> does not parse or
  a supplied non-empty \<^verbatim>\<open>start_date\<close> does not parse; in each of these cases the store is
  left as it was.
\<close>

theorem create_rejections:
  "(\<not> find_teacher db teacher_username \<longrightarrow>
      create_announcement now generated announcement_data teacher_username db
        = (Inl (HTTPException 401 ''Invalid teacher credentials''), db))
   \<and> (find_teacher db teacher_username
        \<and> (strptime (c_end_date announcement_data) = None
           \<or> (\<exists>s. c_start_date announcement_data = Some s \<and> s \<noteq> [] \<and> strptime s = None)) \<longrightarrow>
      create_announcement now generated announcement_data teacher_username db
        = (Inl (HTTPException 400 ''Invalid date format. Use YYYY-MM-DD''), db))"
  by (auto simp: create_announcement_def create_dates_raise_def)

theorem create_rejections_witness:
  "\<not> find_teacher school ''nobody''
   \<and> create_announcement ''2024-05-10T08:30:00'' ''65f0c0ffee0123456789abcd'' assembly ''nobody'' school
       = (Inl (HTTPException 401 ''Invalid teacher credentials''), school)
   \<and> find_teacher school ''mchen''
   \<and> strptime (c_end_date bad_month) = None
   \<and> create_announcement ''2024-05-10T08:30:00'' ''65f0c0ffee0123456789abcd'' bad_month ''mchen'' school
       = (Inl (HTTPException 400 ''Invalid date format. Use YYYY-MM-DD''), school)
   \<and> c_start_date bad_start = Some ''tomorrow''
   \<and> strptime ''tomorrow'' = None
   \<and> create_announcement ''2024-05-10T08:30:00'' ''65f0c0ffee0123456789abcd'' bad_start ''mchen'' school
       = (Inl (HTTPException 400 ''Invalid date format. Use YYYY-MM-DD''), school)"
proof -
  note unknown = create_rejections [THEN conjunct1, rule_format,
      of school "''nobody''" "''2024-05-10T08:30:00''" "''65f0c0ffee0123456789abcd''" assembly]
  note invalid = create_rejections [THEN conjunct2, rule_format,
      of school "''mchen''" _ "''2024-05-10T08:30:00''" "''65f0c0ffee0123456789abcd''"]
  have month: "strptime (c_end_date bad_month) = None"
    by (simp add: bad_month_def strptime_examples)
  have start: "c_start_date bad_start = Some ''tomorrow''"
    by (simp add: bad_start_def)
  have start': "\<exists>s. c_start_date bad_start = Some s \<and> s \<noteq> [] \<and> strptime s = None"
    by (simp add: start strptime_examples)
  show ?thesis
    by (intro conjI)
      (rule school_teachers month start strptime_examples unknown [OF school_teachers(3)]
        invalid [OF conjI [OF school_teachers(1) disjI1 [OF month]]]
        invalid [OF conjI [OF school_teachers(1) disjI2 [OF start']]])+
qed

text \<open>
  The claim as it was stated fails: an empty \<^verbatim>\<open>start_date\<close> is supplied and does not parse,
  yet the create succeeds and the record is stored.
\<close>

theorem create_blank_start_counterexample:
  "c_start_date blank_start = Some []
   \<and> strptime [] = None
   \<and> fst (create_announcement ''2024-05-10T08:30:00'' ''65f0c0ffee0123456789abcd'' blank_start
        ''mchen'' school)
       = Inr (MessageId ''Announcement created successfully'' ''65f0c0ffee0123456789abcd'')
   \<and> announcements_collection
        (snd (create_announcement ''2024-05-10T08:30:00'' ''65f0c0ffee0123456789abcd'' blank_start
           ''mchen'' school))
       = announcements_collection school @
         [\<lparr>title = ''Assembly'', message = ''In the main hall'', priority = Some ''medium'',
           start_date = Some [], end_date = ''2024-05-21'', created_by = ''mchen'',
           created_at = ''2024-05-10T08:30:00'', is_active = Some True,
           doc_id = ObjId ''65f0c0ffee0123456789abcd''\<rparr>]"
  by (simp add: create_announcement_def create_dates_raise_def school_teachers
      strptime_examples blank_start_def assembly_def insert_one_def school_ids
      announcement_doc_of_def with_id_def)

subsection \<open>Creating: what is stored\<close>

lemma with_id_fields [simp]:
  "title (with_id i d) = title d"
  "message (with_id i d) = message d"
  "priority (with_id i d) = priority d"
  "start_date (with_id i d) = start_date d"
  "end_date (with_id i d) = end_date d"
  "created_by (with_id i d) = created_by d"
  "created_at (with_id i d) = created_at d"
  "is_active (with_id i d) = is_active d"
  "doc_id (with_id i d) = i"
  by (simp_all add: with_id_def)

lemma announcement_doc_of_fields [simp]:
  "title (announcement_doc_of now d t) = c_title d"
  "message (announcement_doc_of now d t) = c_message d"
  "priority (announcement_doc_of now d t) = c_priority d"
  "start_date (announcement_doc_of now d t) = c_start_date d"
  "end_date (announcement_doc_of now d t) = c_end_date d"
  "created_by (announcement_doc_of now d t) = t"
  "created_at (announcement_doc_of now d t) = now"
  "is_active (announcement_doc_of now d t) = c_is_active d"
  by (simp_all add: announcement_doc_of_def)

text \<open>A create that succeeds has passed every check and appended exactly one document.\<close>

lemma create_success:
  assumes "create_announcement now generated d t db = (Inr resp, db')"
  shows "find_teacher db t" and "\<not> create_dates_raise d"
    and "ObjId generated \<notin> doc_id ` set (announcements_collection db)"
    and "resp = MessageId ''Announcement created successfully'' generated"
    and "db' = db\<lparr>announcements_collection :=
            announcements_collection db @ [with_id (ObjId generated) (announcement_doc_of now d t)]\<rparr>"
  using assms
  by (auto simp: create_announcement_def insert_one_def split: if_splits)

lemma create_succeeds:
  assumes "find_teacher db t" and "\<not> create_dates_raise d"
    and "ObjId generated \<notin> doc_id ` set (announcements_collection db)"
  shows "create_announcement now generated d t db =
     (Inr (MessageId ''Announcement created successfully'' generated),
      db\<lparr>announcements_collection :=
            announcements_collection db @ [with_id (ObjId generated) (announcement_doc_of now d t)]\<rparr>)"
  using assms by (simp add: create_announcement_def insert_one_def)

lemma get_all_elems:
  assumes "u \<noteq> []" and "find_teacher db u"
  shows "\<exists>listing. get_all_announcements (Some u) db = Inr listing
           \<and> set listing = render_id ` set (announcements_collection db)
           \<and> length listing = length (announcements_collection db)"
  using assms by (simp add: get_all_announcements_def)

text \<open>
  C5. Round trip. After a create that succeeds, the list-all operation, asked by any staff
  member the directory knows, returns a record whose \<^verbatim>\<open>title\<close>, \<^verbatim>\<open>message\<close>,
  \<^verbatim>\<open>priority\<close>, \<^verbatim>\<open>start_date\<close>, \<^verbatim>\<open>end_date\<close> and \<^verbatim>\<open>is_active\<close> are those of the request body,
  whose \<^verbatim>\<open>_id\<close> is the identifier the create returned, whose \<^verbatim>\<open>created_at\<close> is the server's
  time, and whose \<^verbatim>\<open>created_by\<close> is the staff identifier given to the create (the request
  body has no such field). The staff member who created it is still in the directory.
\<close>

theorem create_then_list_all:
  assumes "create_announcement now generated announcement_data teacher_username db = (Inr resp, db')"
  shows "resp = MessageId ''Announcement created successfully'' generated
         \<and> find_teacher db' teacher_username
         \<and> (\<forall>u. u \<noteq> [] \<and> find_teacher db' u \<longrightarrow>
              (\<exists>listing r. get_all_announcements (Some u) db' = Inr listing
                 \<and> r \<in> set listing
                 \<and> length listing = Suc (length (announcements_collection db))
                 \<and> doc_id r = StrId generated
                 \<and> title r = c_title announcement_data
                 \<and> message r = c_message announcement_data
                 \<and> priority r = c_priority announcement_data
                 \<and> start_date r = c_start_date announcement_data
                 \<and> end_date r = c_end_date announcement_data
                 \<and> is_active r = c_is_active announcement_data
                 \<and> created_by r = teacher_username
                 \<and> created_at r = now))"
proof -
  let ?new = "with_id (ObjId generated) (announcement_doc_of now announcement_data teacher_username)"
  note ok = create_success [OF assms]
  have teachers: "find_teacher db' u \<longleftrightarrow> find_teacher db u" for u
    by (simp add: ok(5) find_teacher_def)
  have stored: "announcements_collection db' = announcements_collection db @ [?new]"
    by (simp add: ok(5))
  have "\<exists>listing r. get_all_announcements (Some u) db' = Inr listing
          \<and> r \<in> set listing
          \<and> length listing = Suc (length (announcements_collection db))
          \<and> doc_id r = StrId generated
          \<and> title r = c_title announcement_data
          \<and> message r = c_message announcement_data
          \<and> priority r = c_priority announcement_data
          \<and> start_date r = c_start_date announcement_data
          \<and> end_date r = c_end_date announcement_data
          \<and> is_active r = c_is_active announcement_data
          \<and> created_by r = teacher_username
          \<and> created_at r = now"
    if "u \<noteq> []" "find_teacher db' u" for u
  proof -
    from get_all_elems [OF that] obtain listing where
      listing: "get_all_announcements (Some u) db' = Inr listing"
        "set listing = render_id ` set (announcements_collection db')"
        "length listing = length (announcements_collection db')"
      by blast
    have "render_id ?new \<in> set listing"
      by (simp add: listing(2) stored)
    moreover have "length listing = Suc (length (announcements_collection db))"
      by (simp add: listing(3) stored)
    ultimately show ?thesis
      using listing(1) by (intro exI [of _ listing] exI [of _ "render_id ?new"]) simp
  qed
  with ok(4) ok(1) teachers show ?thesis by blast
qed

lemma assembly_created:
  "create_announcement ''2024-05-10T08:30:00'' ''65f0c0ffee0123456789abcd'' assembly ''mchen'' school
     = (Inr (MessageId ''Announcement created successfully'' ''65f0c0ffee0123456789abcd''),
        school\<lparr>announcements_collection := announcements_collection school @
          [with_id (ObjId ''65f0c0ffee0123456789abcd'')
             (announcement_doc_of ''2024-05-10T08:30:00'' assembly ''mchen'')]\<rparr>)"
proof (rule create_succeeds)
  show "find_teacher school ''mchen''" by (rule school_teachers)
  show "\<not> create_dates_raise assembly"
    by (simp add: create_dates_raise_def assembly_def strptime_examples)
  have "ObjId ''65f0c0ffee0123456789abcd'' \<notin> set (map doc_id (announcements_collection school))"
    unfolding school_ids by simp
  then show "ObjId ''65f0c0ffee0123456789abcd'' \<notin> doc_id ` set (announcements_collection school)"
    by simp
qed

theorem create_then_list_all_witness:
  "create_announcement ''2024-05-10T08:30:00'' ''65f0c0ffee0123456789abcd'' assembly ''mchen'' school
     = (Inr (MessageId ''Announcement created successfully'' ''65f0c0ffee0123456789abcd''),
        school\<lparr>announcements_collection := announcements_collection school @
          [with_id (ObjId ''65f0c0ffee0123456789abcd'')
             (announcement_doc_of ''2024-05-10T08:30:00'' assembly ''mchen'')]\<rparr>)
   \<and> ''mrodriguez'' \<noteq> []
   \<and> find_teacher
        (school\<lparr>announcements_collection := announcements_collection school @
          [with_id (ObjId ''65f0c0ffee0123456789abcd'')
             (announcement_doc_of ''2024-05-10T08:30:00'' assembly ''mchen'')]\<rparr>) ''mrodriguez''
   \<and> (\<exists>listing r.
         get_all_announcements (Some ''mrodriguez'')
           (school\<lparr>announcements_collection := announcements_collection school @
              [with_id (ObjId ''65f0c0ffee0123456789abcd'')
                 (announcement_doc_of ''2024-05-10T08:30:00'' assembly ''mchen'')]\<rparr>) = Inr listing
         \<and> r \<in> set listing
         \<and> length listing = 7
         \<and> doc_id r = StrId ''65f0c0ffee0123456789abcd''
         \<and> title r = ''Assembly''
         \<and> message r = ''In the main hall''
         \<and> priority r = Some ''medium''
         \<and> start_date r = Some ''2024-05-20''
         \<and> end_date r = ''2024-05-21''
         \<and> is_active r = Some True
         \<and> created_by r = ''mchen''
         \<and> created_at r = ''2024-05-10T08:30:00'')"
proof -
  let ?db' = "school\<lparr>announcements_collection := announcements_collection school @
          [with_id (ObjId ''65f0c0ffee0123456789abcd'')
             (announcement_doc_of ''2024-05-10T08:30:00'' assembly ''mchen'')]\<rparr>"
  have other: "''mrodriguez'' \<noteq> []" by simp
  have known: "find_teacher ?db' ''mrodriguez''"
    by (simp add: find_teacher_def school_def)
  note listed = create_then_list_all [OF assembly_created, THEN conjunct2, THEN conjunct2,
      rule_format, OF conjI [OF other known]]
  have size: "Suc (length (announcements_collection school)) = 7"
    by (simp add: school_def)
  from listed have
    "\<exists>listing r. get_all_announcements (Some ''mrodriguez'') ?db' = Inr listing
         \<and> r \<in> set listing
         \<and> length listing = 7
         \<and> doc_id r = StrId ''65f0c0ffee0123456789abcd''
         \<and> title r = ''Assembly''
         \<and> message r = ''In the main hall''
         \<and> priority r = Some ''medium''
         \<and> start_date r = Some ''2024-05-20''
         \<and> end_date r = ''2024-05-21''
         \<and> is_active r = Some True
         \<and> created_by r = ''mchen''
         \<and> created_at r = ''2024-05-10T08:30:00''"
    unfolding size by (simp add: assembly_def)
  with assembly_created other known show ?thesis
    by (intro conjI)
qed

subsection \<open>Updating: the update set\<close>

lemma prepare_update_Inr:
  "prepare_update items acc = Inr update_data \<Longrightarrow>
     update_data = acc @ filter (\<lambda>kv. snd kv \<noteq> PyNone) items"
  by (induction items acc rule: prepare_update.induct) (auto split: if_splits)

lemma prepare_update_Inl:
  "prepare_update items acc = Inl e \<Longrightarrow> status_code e = 400"
  by (induction items acc rule: prepare_update.induct) (auto split: if_splits)

lemma prepare_update_all_None:
  "\<forall>kv \<in> set items. snd kv = PyNone \<Longrightarrow> prepare_update items acc = Inr acc"
  by (induction items acc rule: prepare_update.induct) auto

lemma item_None_iff:
  "(\<forall>kv \<in> set (item k PyStr f). snd kv = PyNone) \<longleftrightarrow> f \<in> {Unset, Null}"
  "(\<forall>kv \<in> set (item k PyBool g). snd kv = PyNone) \<longleftrightarrow> g \<in> {Unset, Null}"
  by (cases f; simp) (cases g; simp)

lemma item_keys:
  "k' \<in> fst ` set (filter (\<lambda>kv. snd kv \<noteq> PyNone) (item k PyStr f)) \<longleftrightarrow> k' = k \<and> f \<notin> {Unset, Null}"
  "k' \<in> fst ` set (filter (\<lambda>kv. snd kv \<noteq> PyNone) (item k PyBool g)) \<longleftrightarrow> k' = k \<and> g \<notin> {Unset, Null}"
  by (cases f; simp) (cases g; simp)

lemma update_keys:
  "k \<in> fst ` set (filter (\<lambda>kv. snd kv \<noteq> PyNone) (dict_exclude_unset d)) \<longleftrightarrow>
     k = ''title'' \<and> u_title d \<notin> {Unset, Null} \<or>
     k = ''message'' \<and> u_message d \<notin> {Unset, Null} \<or>
     k = ''priority'' \<and> u_priority d \<notin> {Unset, Null} \<or>
     k = ''start_date'' \<and> u_start_date d \<notin> {Unset, Null} \<or>
     k = ''end_date'' \<and> u_end_date d \<notin> {Unset, Null} \<or>
     k = ''is_active'' \<and> u_is_active d \<notin> {Unset, Null}"
  unfolding dict_exclude_unset_def filter_append set_append image_Un Un_iff item_keys
  by (rule refl)

lemma set_field_other:
  "doc_id (set_field kv a) = doc_id a"
  "created_by (set_field kv a) = created_by a"
  "created_at (set_field kv a) = created_at a"
  by (cases kv; cases "snd kv"; simp)+

lemma set_field_key:
  "''title'' \<noteq> fst kv \<Longrightarrow> title (set_field kv a) = title a"
  "''message'' \<noteq> fst kv \<Longrightarrow> message (set_field kv a) = message a"
  "''priority'' \<noteq> fst kv \<Longrightarrow> priority (set_field kv a) = priority a"
  "''start_date'' \<noteq> fst kv \<Longrightarrow> start_date (set_field kv a) = start_date a"
  "''end_date'' \<noteq> fst kv \<Longrightarrow> end_date (set_field kv a) = end_date a"
  "''is_active'' \<noteq> fst kv \<Longrightarrow> is_active (set_field kv a) = is_active a"
  by (cases kv; cases "snd kv"; simp)+

lemma fold_set_field_doc_id: "doc_id (fold set_field update_data a) = doc_id a"
  by (induction update_data arbitrary: a) (simp_all add: set_field_other)

lemma fold_set_field_created_by: "created_by (fold set_field update_data a) = created_by a"
  by (induction update_data arbitrary: a) (simp_all add: set_field_other)

lemma fold_set_field_created_at: "created_at (fold set_field update_data a) = created_at a"
  by (induction update_data arbitrary: a) (simp_all add: set_field_other)

lemma fold_set_field_title:
  "''title'' \<notin> fst ` set update_data \<Longrightarrow> title (fold set_field update_data a) = title a"
  by (induction update_data arbitrary: a) (simp_all add: set_field_key)

lemma fold_set_field_message:
  "''message'' \<notin> fst ` set update_data \<Longrightarrow> message (fold set_field update_data a) = message a"
  by (induction update_data arbitrary: a) (simp_all add: set_field_key)

lemma fold_set_field_priority:
  "''priority'' \<notin> fst ` set update_data \<Longrightarrow> priority (fold set_field update_data a) = priority a"
  by (induction update_data arbitrary: a) (simp_all add: set_field_key)

lemma fold_set_field_start_date:
  "''start_date'' \<notin> fst ` set update_data \<Longrightarrow>
     start_date (fold set_field update_data a) = start_date a"
  by (induction update_data arbitrary: a) (simp_all add: set_field_key)

lemma fold_set_field_end_date:
  "''end_date'' \<notin> fst ` set update_data \<Longrightarrow> end_date (fold set_field update_data a) = end_date a"
  by (induction update_data arbitrary: a) (simp_all add: set_field_key)

lemma fold_set_field_is_active:
  "''is_active'' \<notin> fst ` set update_data \<Longrightarrow>
     is_active (fold set_field update_data a) = is_active a"
  by (induction update_data arbitrary: a) (simp_all add: set_field_key)

lemma update_one_found:
  "find_one i coll = Some a \<Longrightarrow>
     fst (update_one i update_data coll) = (if fold set_field update_data a = a then 0 else 1)
     \<and> find_one i (snd (update_one i update_data coll)) = Some (fold set_field update_data a)"
  by (induction coll) (auto simp: find_one_def fold_set_field_doc_id)

lemma update_one_unchanged:
  "fst (update_one i update_data coll) = 0 \<Longrightarrow> snd (update_one i update_data coll) = coll"
  by (induction coll) (auto split: if_splits)

text \<open>The path of an update through its checks, read off the handler.\<close>

lemma update_unknown_teacher:
  "\<not> find_teacher db t \<Longrightarrow>
     update_announcement announcement_id d t db
       = (Inl (HTTPException 401 ''Invalid teacher credentials''), db)"
  by (simp add: update_announcement_def)

lemma update_invalid_id:
  "find_teacher db t \<Longrightarrow> ObjectId announcement_id = None \<Longrightarrow>
     update_announcement announcement_id d t db
       = (Inl (HTTPException 400 ''Invalid announcement ID''), db)"
  by (simp add: update_announcement_def)

lemma update_missing:
  "find_teacher db t \<Longrightarrow> ObjectId announcement_id = Some oid \<Longrightarrow>
   find_one oid (announcements_collection db) = None \<Longrightarrow>
     update_announcement announcement_id d t db
       = (Inl (HTTPException 404 ''Announcement not found''), db)"
  by (simp add: update_announcement_def)

lemma update_rejected:
  "find_teacher db t \<Longrightarrow> ObjectId announcement_id = Some oid \<Longrightarrow>
   find_one oid (announcements_collection db) = Some a \<Longrightarrow>
   prepare_update (dict_exclude_unset d) [] = Inl e \<Longrightarrow>
     update_announcement announcement_id d t db = (Inl e, db)"
  by (simp add: update_announcement_def)

lemma update_result:
  assumes "find_teacher db t" and "ObjectId announcement_id = Some oid"
    and "find_one oid (announcements_collection db) = Some a"
    and "prepare_update (dict_exclude_unset d) [] = Inr update_data"
  shows "update_announcement announcement_id d t db =
     (if update_data = [] then (Inl (HTTPException 400 ''No valid fields to update''), db)
      else if fold set_field update_data a = a
      then (Inl (HTTPException 500 ''Failed to update announcement''), db)
      else (Inr (Message ''Announcement updated successfully''),
            db\<lparr>announcements_collection :=
                  snd (update_one oid update_data (announcements_collection db))\<rparr>))"
proof -
  obtain n coll where u: "update_one oid update_data (announcements_collection db) = (n, coll)"
    by (cases "update_one oid update_data (announcements_collection db)")
  from update_one_found [OF assms(3), of update_data] u
  have n: "n = (if fold set_field update_data a = a then 0 else 1)"
    by simp
  have "coll = announcements_collection db" if "fold set_field update_data a = a"
    using update_one_unchanged [of oid update_data "announcements_collection db"] u n that
    by simp
  then show ?thesis
    using assms u n by (simp add: update_announcement_def)
qed

lemma update_outcome:
  obtains
    (unknown) "\<not> find_teacher db t"
  | (invalid) "find_teacher db t" "ObjectId announcement_id = None"
  | (missing) oid where "find_teacher db t" "ObjectId announcement_id = Some oid"
      "find_one oid (announcements_collection db) = None"
  | (rejected) oid a e where "find_teacher db t" "ObjectId announcement_id = Some oid"
      "find_one oid (announcements_collection db) = Some a"
      "prepare_update (dict_exclude_unset d) [] = Inl e"
  | (prepared) oid a update_data where "find_teacher db t" "ObjectId announcement_id = Some oid"
      "find_one oid (announcements_collection db) = Some a"
      "prepare_update (dict_exclude_unset d) [] = Inr update_data"
proof (cases "find_teacher db t")
  case False
  then show ?thesis by (rule unknown)
next
  case teacher: True
  show ?thesis
  proof (cases "ObjectId announcement_id")
    case None
    with teacher show ?thesis by (rule invalid)
  next
    case (Some oid)
    show ?thesis
    proof (cases "find_one oid (announcements_collection db)")
      case None
      with teacher Some show ?thesis by (rule missing)
    next
      case found: (Some a)
      show ?thesis
      proof (cases "prepare_update (dict_exclude_unset d) []")
        case (Inl e)
        with teacher Some found show ?thesis by (rule rejected)
      next
        case (Inr update_data)
        with teacher Some found show ?thesis by (rule prepared)
      qed
    qed
  qed
qed

lemma update_success:
  assumes "update_announcement announcement_id d t db = (Inr resp, db')"
  obtains oid a where "find_teacher db t" and "ObjectId announcement_id = Some oid"
    and "find_one oid (announcements_collection db) = Some a"
    and "prepare_update (dict_exclude_unset d) [] = Inr (filter (\<lambda>kv. snd kv \<noteq> PyNone) (dict_exclude_unset d))"
    and "filter (\<lambda>kv. snd kv \<noteq> PyNone) (dict_exclude_unset d) \<noteq> []"
    and "fold set_field (filter (\<lambda>kv. snd kv \<noteq> PyNone) (dict_exclude_unset d)) a \<noteq> a"
    and "db' = db\<lparr>announcements_collection :=
           snd (update_one oid (filter (\<lambda>kv. snd kv \<noteq> PyNone) (dict_exclude_unset d))
             (announcements_collection db))\<rparr>"
proof (cases rule: update_outcome [where db = db and t = t and announcement_id = announcement_id and d = d])
  case unknown
  from update_unknown_teacher [OF this] assms show ?thesis by simp
next
  case invalid
  from update_invalid_id [OF this] assms show ?thesis by simp
next
  case (missing oid)
  from update_missing [OF this] assms show ?thesis by simp
next
  case (rejected oid a e)
  from update_rejected [OF this] assms show ?thesis by simp
next
  case (prepared oid a update_data)
  from prepare_update_Inr [OF prepared(4)]
  have ud: "update_data = filter (\<lambda>kv. snd kv \<noteq> PyNone) (dict_exclude_unset d)"
    by simp
  from update_result [OF prepared] assms
  have "update_data \<noteq> []" and "fold set_field update_data a \<noteq> a"
    and "db' = db\<lparr>announcements_collection :=
           snd (update_one oid update_data (announcements_collection db))\<rparr>"
    by (auto split: if_splits)
  with prepared show ?thesis
    unfolding ud by (intro that [of oid a])
qed

lemma all_skipped:
  assumes "u_title d \<in> {Unset, Null}" "u_message d \<in> {Unset, Null}"
    "u_priority d \<in> {Unset, Null}" "u_start_date d \<in> {Unset, Null}"
    "u_end_date d \<in> {Unset, Null}" "u_is_active d \<in> {Unset, Null}"
  shows "prepare_update (dict_exclude_unset d) [] = Inr []"
proof (rule prepare_update_all_None)
  show "\<forall>kv \<in> set (dict_exclude_unset d). snd kv = PyNone"
    unfolding dict_exclude_unset_def set_append ball_Un item_None_iff
    using assms by (intro conjI)
qed

subsection \<open>Updating: skipped fields and the empty update\<close>

text \<open>
  C6. In an update that succeeds, a field left out of the body and a field sent as null
  are both skipped: the stored record keeps its value in that field. When every field is
  left out or null, an update of an existing record by a known staff member fails with
  400 "No valid fields to update" and the store is as it was.
\<close>

theorem update_skips_unset_and_null:
  "(\<forall>resp db' oid.
      update_announcement announcement_id announcement_data teacher_username db = (Inr resp, db')
      \<and> ObjectId announcement_id = Some oid \<longrightarrow>
      (\<exists>a a'. find_one oid (announcements_collection db) = Some a
         \<and> find_one oid (announcements_collection db') = Some a'
         \<and> (u_title announcement_data \<in> {Unset, Null} \<longrightarrow> title a' = title a)
         \<and> (u_message announcement_data \<in> {Unset, Null} \<longrightarrow> message a' = message a)
         \<and> (u_priority announcement_data \<in> {Unset, Null} \<longrightarrow> priority a' = priority a)
         \<and> (u_start_date announcement_data \<in> {Unset, Null} \<longrightarrow> start_date a' = start_date a)
         \<and> (u_end_date announcement_data \<in> {Unset, Null} \<longrightarrow> end_date a' = end_date a)
         \<and> (u_is_active announcement_data \<in> {Unset, Null} \<longrightarrow> is_active a' = is_active a)))
   \<and> (find_teacher db teacher_username
       \<and> (\<exists>oid. ObjectId announcement_id = Some oid
              \<and> oid \<in> doc_id ` set (announcements_collection db))
       \<and> u_title announcement_data \<in> {Unset, Null}
       \<and> u_message announcement_data \<in> {Unset, Null}
       \<and> u_priority announcement_data \<in> {Unset, Null}
       \<and> u_start_date announcement_data \<in> {Unset, Null}
       \<and> u_end_date announcement_data \<in> {Unset, Null}
       \<and> u_is_active announcement_data \<in> {Unset, Null} \<longrightarrow>
       update_announcement announcement_id announcement_data teacher_username db
         = (Inl (HTTPException 400 ''No valid fields to update''), db))"
proof (intro conjI allI impI)
  fix resp db' oid
  let ?d = announcement_data
  let ?ud = "filter (\<lambda>kv. snd kv \<noteq> PyNone) (dict_exclude_unset ?d)"
  assume "update_announcement announcement_id ?d teacher_username db = (Inr resp, db')
      \<and> ObjectId announcement_id = Some oid"
  then have ok: "update_announcement announcement_id ?d teacher_username db = (Inr resp, db')"
    and oid: "ObjectId announcement_id = Some oid"
    by simp_all
  from ok obtain a where a: "find_one oid (announcements_collection db) = Some a"
    and db': "db' = db\<lparr>announcements_collection :=
           snd (update_one oid ?ud (announcements_collection db))\<rparr>"
    using oid by (elim update_success) simp
  from update_one_found [OF a, of ?ud] db'
  have a': "find_one oid (announcements_collection db') = Some (fold set_field ?ud a)"
    by simp
  have "title (fold set_field ?ud a) = title a" if "u_title ?d \<in> {Unset, Null}"
    using that by (intro fold_set_field_title) (simp only: update_keys, simp)
  moreover have "message (fold set_field ?ud a) = message a" if "u_message ?d \<in> {Unset, Null}"
    using that by (intro fold_set_field_message) (simp only: update_keys, simp)
  moreover have "priority (fold set_field ?ud a) = priority a" if "u_priority ?d \<in> {Unset, Null}"
    using that by (intro fold_set_field_priority) (simp only: update_keys, simp)
  moreover have "start_date (fold set_field ?ud a) = start_date a"
    if "u_start_date ?d \<in> {Unset, Null}"
    using that by (intro fold_set_field_start_date) (simp only: update_keys, simp)
  moreover have "end_date (fold set_field ?ud a) = end_date a" if "u_end_date ?d \<in> {Unset, Null}"
    using that by (intro fold_set_field_end_date) (simp only: update_keys, simp)
  moreover have "is_active (fold set_field ?ud a) = is_active a"
    if "u_is_active ?d \<in> {Unset, Null}"
    using that by (intro fold_set_field_is_active) (simp only: update_keys, simp)
  ultimately show "\<exists>a a'. find_one oid (announcements_collection db) = Some a
         \<and> find_one oid (announcements_collection db') = Some a'
         \<and> (u_title ?d \<in> {Unset, Null} \<longrightarrow> title a' = title a)
         \<and> (u_message ?d \<in> {Unset, Null} \<longrightarrow> message a' = message a)
         \<and> (u_priority ?d \<in> {Unset, Null} \<longrightarrow> priority a' = priority a)
         \<and> (u_start_date ?d \<in> {Unset, Null} \<longrightarrow> start_date a' = start_date a)
         \<and> (u_end_date ?d \<in> {Unset, Null} \<longrightarrow> end_date a' = end_date a)
         \<and> (u_is_active ?d \<in> {Unset, Null} \<longrightarrow> is_active a' = is_active a)"
    using a a' by (intro exI [of _ a] exI [of _ "fold set_field ?ud a"] conjI impI)
next
  let ?d = announcement_data
  assume h: "find_teacher db teacher_username
       \<and> (\<exists>oid. ObjectId announcement_id = Some oid
              \<and> oid \<in> doc_id ` set (announcements_collection db))
       \<and> u_title ?d \<in> {Unset, Null}
       \<and> u_message ?d \<in> {Unset, Null}
       \<and> u_priority ?d \<in> {Unset, Null}
       \<and> u_start_date ?d \<in> {Unset, Null}
       \<and> u_end_date ?d \<in> {Unset, Null}
       \<and> u_is_active ?d \<in> {Unset, Null}"
  then obtain oid where oid: "ObjectId announcement_id = Some oid"
    and "oid \<in> doc_id ` set (announcements_collection db)"
    by blast
  then obtain a where a: "find_one oid (announcements_collection db) = Some a"
    using find_one_None_iff [of oid "announcements_collection db"] by (cases "find_one oid (announcements_collection db)") simp_all
  from h have "prepare_update (dict_exclude_unset ?d) [] = Inr []"
    by (intro all_skipped) simp_all
  from update_result [OF _ oid a this] h
  show "update_announcement announcement_id ?d teacher_username db
         = (Inl (HTTPException 400 ''No valid fields to update''), db)"
    by simp
qed
lemma closure_found:
  "find_one (ObjId ''507f1f77bcf86cd799439012'') (announcements_collection school) = Some closure"
  by (simp add: find_one_def school_defs)

lemma closure_stored:
  "ObjId ''507f1f77bcf86cd799439012'' \<in> doc_id ` set (announcements_collection school)"
  using find_one_None_iff [of "ObjId ''507f1f77bcf86cd799439012''" "announcements_collection school"]
  by (simp add: closure_found)

lemma rename_prepared:
  "prepare_update (dict_exclude_unset rename) [] = Inr [(''title'', PyStr ''Snow day, all week'')]"
  by (simp add: rename_def empty_body_def dict_exclude_unset_def)

lemma rename_applied:
  "update_announcement ''507f1f77bcf86cd799439012'' rename ''mchen'' school
     = (Inr (Message ''Announcement updated successfully''),
        school\<lparr>announcements_collection :=
          [exams, closure\<lparr>title := ''Snow day, all week''\<rparr>, retired, fair, picnic, autumn]\<rparr>)"
proof -
  have "fold set_field [(''title'', PyStr ''Snow day, all week'')] closure
      = closure\<lparr>title := ''Snow day, all week''\<rparr>"
    by simp
  moreover have "closure\<lparr>title := ''Snow day, all week''\<rparr> \<noteq> closure"
    by (simp add: closure_def)
  moreover have "snd (update_one (ObjId ''507f1f77bcf86cd799439012'')
        [(''title'', PyStr ''Snow day, all week'')] (announcements_collection school))
      = [exams, closure\<lparr>title := ''Snow day, all week''\<rparr>, retired, fair, picnic, autumn]"
    by (simp add: school_defs)
  ultimately show ?thesis
    using update_result [OF school_teachers(1) ObjectId_examples(3) closure_found rename_prepared]
    by simp
qed

theorem update_skips_unset_and_null_witness:
  "update_announcement ''507f1f77bcf86cd799439012'' rename ''mchen'' school
     = (Inr (Message ''Announcement updated successfully''),
        school\<lparr>announcements_collection :=
          [exams, closure\<lparr>title := ''Snow day, all week''\<rparr>, retired, fair, picnic, autumn]\<rparr>)
   \<and> ObjectId ''507f1f77bcf86cd799439012'' = Some (ObjId ''507f1f77bcf86cd799439012'')
   \<and> u_message rename \<in> {Unset, Null}
   \<and> u_end_date rename \<in> {Unset, Null}
   \<and> (\<exists>a'. find_one (ObjId ''507f1f77bcf86cd799439012'')
               [exams, closure\<lparr>title := ''Snow day, all week''\<rparr>, retired, fair, picnic, autumn]
             = Some a'
          \<and> message a' = ''School is closed'' \<and> end_date a' = ''2024-05-31'')
   \<and> find_teacher school ''mchen''
   \<and> ObjId ''507f1f77bcf86cd799439012'' \<in> doc_id ` set (announcements_collection school)
   \<and> u_title null_body \<in> {Unset, Null}
   \<and> update_announcement ''507f1f77bcf86cd799439012'' null_body ''mchen'' school
       = (Inl (HTTPException 400 ''No valid fields to update''), school)"
proof -
  let ?oid = "ObjId ''507f1f77bcf86cd799439012''"
  let ?coll = "[exams, closure\<lparr>title := ''Snow day, all week''\<rparr>, retired, fair, picnic, autumn]"
  have skipped: "u_message rename \<in> {Unset, Null}" "u_end_date rename \<in> {Unset, Null}"
    by (simp_all add: rename_def empty_body_def)
  note kept = update_skips_unset_and_null [THEN conjunct1, rule_format,
      OF conjI [OF rename_applied ObjectId_examples(3)]]
  then obtain a a' where a: "find_one ?oid (announcements_collection school) = Some a"
    and a': "find_one ?oid (announcements_collection (school\<lparr>announcements_collection := ?coll\<rparr>)) = Some a'"
    and m: "u_message rename \<in> {Unset, Null} \<longrightarrow> message a' = message a"
    and e: "u_end_date rename \<in> {Unset, Null} \<longrightarrow> end_date a' = end_date a"
    by (elim exE conjE)
  from a have "a = closure"
    by (simp add: closure_found)
  moreover from m skipped(1) have "message a' = message a"
    by (rule mp)
  moreover from e skipped(2) have "end_date a' = end_date a"
    by (rule mp)
  ultimately have "message a' = ''School is closed''" "end_date a' = ''2024-05-31''"
    by (simp_all add: closure_def)
  with a' have listed: "\<exists>a'. find_one ?oid ?coll = Some a'
      \<and> message a' = ''School is closed'' \<and> end_date a' = ''2024-05-31''"
    by simp
  have nulls: "u_title null_body \<in> {Unset, Null}" "u_message null_body \<in> {Unset, Null}"
    "u_priority null_body \<in> {Unset, Null}" "u_start_date null_body \<in> {Unset, Null}"
    "u_end_date null_body \<in> {Unset, Null}" "u_is_active null_body \<in> {Unset, Null}"
    by (simp_all add: null_body_def empty_body_def)
  have target: "\<exists>oid. ObjectId ''507f1f77bcf86cd799439012'' = Some oid
      \<and> oid \<in> doc_id ` set (announcements_collection school)"
    using ObjectId_examples(3) closure_stored by (intro exI [of _ ?oid] conjI)
  note no_fields = update_skips_unset_and_null [where db = school and teacher_username = "''mchen''"
        and announcement_id = "''507f1f77bcf86cd799439012''" and announcement_data = null_body,
      THEN conjunct2, THEN mp]
  have all_null: "find_teacher school ''mchen''
      \<and> (\<exists>oid. ObjectId ''507f1f77bcf86cd799439012'' = Some oid
              \<and> oid \<in> doc_id ` set (announcements_collection school))
      \<and> u_title null_body \<in> {Unset, Null}
      \<and> u_message null_body \<in> {Unset, Null}
      \<and> u_priority null_body \<in> {Unset, Null}
      \<and> u_start_date null_body \<in> {Unset, Null}
      \<and> u_end_date null_body \<in> {Unset, Null}
      \<and> u_is_active null_body \<in> {Unset, Null}"
    by (intro conjI) (rule school_teachers(1) target nulls)+
  have rejected: "update_announcement ''507f1f77bcf86cd799439012'' null_body ''mchen'' school
       = (Inl (HTTPException 400 ''No valid fields to update''), school)"
    by (rule no_fields [OF all_null])
  show ?thesis
    by (intro conjI)
      (rule rename_applied ObjectId_examples skipped listed school_teachers closure_stored
        nulls rejected)+
qed

subsection \<open>Updating: the storage error\<close>

text \<open>
  C7. An update fails with 500 "Failed to update announcement" exactly when it has passed
  every check and the store reports that it has modified no record; no other failure of an
  update has status 500. In particular an update whose values are those the record already
  holds, so that applying them leaves the record as it is, fails with 500 and leaves the
  store as it was.
\<close>

theorem update_storage_error:
  "(fst (update_announcement announcement_id announcement_data teacher_username db)
      = Inl (HTTPException 500 ''Failed to update announcement'')
    \<longleftrightarrow> find_teacher db teacher_username
        \<and> (\<exists>oid a update_data. ObjectId announcement_id = Some oid
              \<and> find_one oid (announcements_collection db) = Some a
              \<and> prepare_update (dict_exclude_unset announcement_data) [] = Inr update_data
              \<and> update_data \<noteq> []
              \<and> fst (update_one oid update_data (announcements_collection db)) = 0))
   \<and> (\<forall>e. fst (update_announcement announcement_id announcement_data teacher_username db) = Inl e
          \<and> status_code e = 500 \<longrightarrow> e = HTTPException 500 ''Failed to update announcement'')
   \<and> (\<forall>oid a update_data. find_teacher db teacher_username
          \<and> ObjectId announcement_id = Some oid
          \<and> find_one oid (announcements_collection db) = Some a
          \<and> prepare_update (dict_exclude_unset announcement_data) [] = Inr update_data
          \<and> update_data \<noteq> []
          \<and> fold set_field update_data a = a \<longrightarrow>
        update_announcement announcement_id announcement_data teacher_username db
          = (Inl (HTTPException 500 ''Failed to update announcement''), db))"
proof (cases rule: update_outcome [where db = db and t = teacher_username
      and announcement_id = announcement_id and d = announcement_data])
  case unknown
  then show ?thesis
    by (simp add: update_unknown_teacher)
next
  case invalid
  then show ?thesis
    by (simp add: update_invalid_id)
next
  case (missing oid)
  then show ?thesis
    by (simp add: update_missing)
next
  case (rejected oid a e)
  from prepare_update_Inl [OF rejected(4)] have "status_code e = 400" .
  then have "e \<noteq> HTTPException 500 ''Failed to update announcement''"
    by auto
  with rejected \<open>status_code e = 400\<close> show ?thesis
    by (simp add: update_rejected)
next
  case (prepared oid a update_data)
  note result = update_result [OF prepared]
  note count = update_one_found [OF prepared(3), of update_data, THEN conjunct1]
  show ?thesis
    using prepared by (simp add: result count)
qed

lemma same_title_prepared:
  "prepare_update (dict_exclude_unset same_title) [] = Inr [(''title'', PyStr ''Snow day'')]"
  by (simp add: same_title_def empty_body_def dict_exclude_unset_def)

theorem update_storage_error_witness:
  "find_teacher school ''mchen''
   \<and> ObjectId ''507f1f77bcf86cd799439012'' = Some (ObjId ''507f1f77bcf86cd799439012'')
   \<and> find_one (ObjId ''507f1f77bcf86cd799439012'') (announcements_collection school) = Some closure
   \<and> prepare_update (dict_exclude_unset same_title) [] = Inr [(''title'', PyStr ''Snow day'')]
   \<and> [(''title'', PyStr ''Snow day'')] \<noteq> []
   \<and> title closure = ''Snow day''
   \<and> fold set_field [(''title'', PyStr ''Snow day'')] closure = closure
   \<and> update_announcement ''507f1f77bcf86cd799439012'' same_title ''mchen'' school
       = (Inl (HTTPException 500 ''Failed to update announcement''), school)"
proof -
  have some: "[(''title'', PyStr ''Snow day'')] \<noteq> []"
    by simp
  have current: "title closure = ''Snow day''"
    by (simp add: closure_def)
  have same: "fold set_field [(''title'', PyStr ''Snow day'')] closure = closure"
    by (simp add: closure_def)
  note no_op = update_storage_error [where db = school and teacher_username = "''mchen''"
        and announcement_id = "''507f1f77bcf86cd799439012''" and announcement_data = same_title,
      THEN conjunct2, THEN conjunct2, THEN spec, THEN spec, THEN spec, THEN mp]
  have failed: "update_announcement ''507f1f77bcf86cd799439012'' same_title ''mchen'' school
       = (Inl (HTTPException 500 ''Failed to update announcement''), school)"
  proof (rule no_op)
    show "find_teacher school ''mchen''
        \<and> ObjectId ''507f1f77bcf86cd799439012'' = Some (ObjId ''507f1f77bcf86cd799439012'')
        \<and> find_one (ObjId ''507f1f77bcf86cd799439012'') (announcements_collection school)
            = Some closure
        \<and> prepare_update (dict_exclude_unset same_title) [] = Inr [(''title'', PyStr ''Snow day'')]
        \<and> [(''title'', PyStr ''Snow day'')] \<noteq> []
        \<and> fold set_field [(''title'', PyStr ''Snow day'')] closure = closure"
      by (intro conjI)
        (rule school_teachers(1) ObjectId_examples(3) closure_found same_title_prepared
          some same)+
  qed
  show ?thesis
    by (intro conjI)
      (rule school_teachers ObjectId_examples closure_found same_title_prepared some current
        same failed)+
qed

subsection \<open>Deleting\<close>

lemma delete_one_missing: "i \<notin> doc_id ` set coll \<Longrightarrow> delete_one i coll = (0, coll)"
  by (induction coll) auto

lemma delete_one_found:
  "i \<in> doc_id ` set coll \<Longrightarrow>
     \<exists>pre a post. coll = pre @ a # post \<and> doc_id a = i \<and> i \<notin> doc_id ` set pre
       \<and> delete_one i coll = (1, pre @ post)"
proof (induction coll)
  case Nil
  then show ?case by simp
next
  case (Cons b coll)
  show ?case
  proof (cases "doc_id b = i")
    case True
    then have "b # coll = [] @ b # coll \<and> doc_id b = i \<and> i \<notin> doc_id ` set []
        \<and> delete_one i (b # coll) = (1, [] @ coll)"
      by simp
    then show ?thesis by blast
  next
    case False
    with Cons.prems have "i \<in> doc_id ` set coll" by auto
    from Cons.IH [OF this] obtain pre a post where
      split: "coll = pre @ a # post" "doc_id a = i" "i \<notin> doc_id ` set pre"
        "delete_one i coll = (1, pre @ post)"
      by blast
    with False have "b # coll = (b # pre) @ a # post \<and> doc_id a = i
        \<and> i \<notin> doc_id ` set (b # pre) \<and> delete_one i (b # coll) = (1, (b # pre) @ post)"
      by auto
    then show ?thesis by blast
  qed
qed

lemma delete_result:
  assumes "find_teacher db t" and "ObjectId announcement_id = Some oid"
  shows "delete_announcement announcement_id t db =
     (if fst (delete_one oid (announcements_collection db)) = 0
      then (Inl (HTTPException 404 ''Announcement not found''),
            db\<lparr>announcements_collection := snd (delete_one oid (announcements_collection db))\<rparr>)
      else (Inr (Message ''Announcement deleted successfully''),
            db\<lparr>announcements_collection := snd (delete_one oid (announcements_collection db))\<rparr>))"
  using assms by (simp add: delete_announcement_def split: prod.splits)

text \<open>
  C8, as the code has it. For a caller the staff directory knows, a delete whose target
  identifier is not a valid identifier (one \<^verbatim>\<open>ObjectId\<close> refuses) fails with 400 "Invalid
  announcement ID"; a delete whose identifier is valid but matches no record fails with 404
  "Announcement not found"; a delete whose identifier matches removes the first record with
  that identifier and nothing else. Every failing delete leaves the store as it was. Where
  identifiers are unique, deleting the same identifier again fails with 404 and changes
  nothing.
\<close>

theorem delete_outcomes:
  "(find_teacher db teacher_username \<and> ObjectId announcement_id = None \<longrightarrow>
      delete_announcement announcement_id teacher_username db
        = (Inl (HTTPException 400 ''Invalid announcement ID''), db))
   \<and> (\<forall>oid. find_teacher db teacher_username \<and> ObjectId announcement_id = Some oid
          \<and> oid \<notin> doc_id ` set (announcements_collection db) \<longrightarrow>
        delete_announcement announcement_id teacher_username db
          = (Inl (HTTPException 404 ''Announcement not found''), db))
   \<and> (\<forall>oid. find_teacher db teacher_username \<and> ObjectId announcement_id = Some oid
          \<and> oid \<in> doc_id ` set (announcements_collection db) \<longrightarrow>
        (\<exists>pre a post. announcements_collection db = pre @ a # post \<and> doc_id a = oid
           \<and> oid \<notin> doc_id ` set pre
           \<and> delete_announcement announcement_id teacher_username db
               = (Inr (Message ''Announcement deleted successfully''),
                  db\<lparr>announcements_collection := pre @ post\<rparr>)))
   \<and> (\<forall>oid. find_teacher db teacher_username \<and> ObjectId announcement_id = Some oid
          \<and> oid \<in> doc_id ` set (announcements_collection db)
          \<and> distinct (map doc_id (announcements_collection db)) \<longrightarrow>
        delete_announcement announcement_id teacher_username
            (snd (delete_announcement announcement_id teacher_username db))
          = (Inl (HTTPException 404 ''Announcement not found''),
             snd (delete_announcement announcement_id teacher_username db)))
   \<and> (\<forall>e. fst (delete_announcement announcement_id teacher_username db) = Inl e \<longrightarrow>
        snd (delete_announcement announcement_id teacher_username db) = db)"
proof (intro conjI allI impI)
  assume "find_teacher db teacher_username \<and> ObjectId announcement_id = None"
  then show "delete_announcement announcement_id teacher_username db
      = (Inl (HTTPException 400 ''Invalid announcement ID''), db)"
    by (simp add: delete_announcement_def)
next
  fix oid
  assume "find_teacher db teacher_username \<and> ObjectId announcement_id = Some oid
      \<and> oid \<notin> doc_id ` set (announcements_collection db)"
  then show "delete_announcement announcement_id teacher_username db
      = (Inl (HTTPException 404 ''Announcement not found''), db)"
    by (simp add: delete_result delete_one_missing)
next
  fix oid
  assume h: "find_teacher db teacher_username \<and> ObjectId announcement_id = Some oid
      \<and> oid \<in> doc_id ` set (announcements_collection db)"
  then obtain pre a post where
    split: "announcements_collection db = pre @ a # post" "doc_id a = oid"
      "oid \<notin> doc_id ` set pre" "delete_one oid (announcements_collection db) = (1, pre @ post)"
    using delete_one_found [of oid "announcements_collection db"] by blast
  from h split(4) have "delete_announcement announcement_id teacher_username db
      = (Inr (Message ''Announcement deleted successfully''),
         db\<lparr>announcements_collection := pre @ post\<rparr>)"
    by (simp add: delete_result)
  with split(1-3) show "\<exists>pre a post. announcements_collection db = pre @ a # post
      \<and> doc_id a = oid \<and> oid \<notin> doc_id ` set pre
      \<and> delete_announcement announcement_id teacher_username db
          = (Inr (Message ''Announcement deleted successfully''),
             db\<lparr>announcements_collection := pre @ post\<rparr>)"
    by blast
next
  fix oid
  assume h: "find_teacher db teacher_username \<and> ObjectId announcement_id = Some oid
      \<and> oid \<in> doc_id ` set (announcements_collection db)
      \<and> distinct (map doc_id (announcements_collection db))"
  then obtain pre a post where
    split: "announcements_collection db = pre @ a # post" "doc_id a = oid"
      "oid \<notin> doc_id ` set pre" "delete_one oid (announcements_collection db) = (1, pre @ post)"
    using delete_one_found [of oid "announcements_collection db"] by blast
  let ?db' = "db\<lparr>announcements_collection := pre @ post\<rparr>"
  from h split(4) have first: "snd (delete_announcement announcement_id teacher_username db) = ?db'"
    by (simp add: delete_result)
  from h split(1,2) have "oid \<notin> doc_id ` set post"
    by auto
  with split(3) have gone: "oid \<notin> doc_id ` set (announcements_collection ?db')"
    by auto
  from h have "find_teacher ?db' teacher_username" "ObjectId announcement_id = Some oid"
    by (simp_all add: find_teacher_def)
  from delete_result [OF this] delete_one_missing [OF gone]
  have "delete_announcement announcement_id teacher_username ?db'
      = (Inl (HTTPException 404 ''Announcement not found''), ?db')"
    by simp
  then show "delete_announcement announcement_id teacher_username
            (snd (delete_announcement announcement_id teacher_username db))
          = (Inl (HTTPException 404 ''Announcement not found''),
             snd (delete_announcement announcement_id teacher_username db))"
    unfolding first .
next
  fix e
  assume failed: "fst (delete_announcement announcement_id teacher_username db) = Inl e"
  show "snd (delete_announcement announcement_id teacher_username db) = db"
  proof (cases "find_teacher db teacher_username")
    case False
    then show ?thesis by (simp add: delete_announcement_def)
  next
    case teacher: True
    show ?thesis
    proof (cases "ObjectId announcement_id")
      case None
      with teacher show ?thesis by (simp add: delete_announcement_def)
    next
      case (Some oid)
      show ?thesis
      proof (cases "oid \<in> doc_id ` set (announcements_collection db)")
        case True
        from delete_one_found [OF this] obtain coll where
          "delete_one oid (announcements_collection db) = (1, coll)"
          by blast
        with failed teacher Some show ?thesis
          by (simp add: delete_result)
      next
        case False
        with teacher Some show ?thesis
          by (simp add: delete_result delete_one_missing)
      qed
    qed
  qed
qed

lemma school_distinct: "distinct (map doc_id (announcements_collection school))"
  unfolding school_ids by simp

lemma closure_deleted:
  "delete_announcement ''507f1f77bcf86cd799439012'' ''mchen'' school
     = (Inr (Message ''Announcement deleted successfully''),
        school\<lparr>announcements_collection := [exams, retired, fair, picnic, autumn]\<rparr>)"
proof -
  have "delete_one (ObjId ''507f1f77bcf86cd799439012'') (announcements_collection school)
      = (1, [exams, retired, fair, picnic, autumn])"
    by (simp add: school_defs)
  with delete_result [OF school_teachers(1) ObjectId_examples(3)] show ?thesis
    by simp
qed

theorem delete_outcomes_witness:
  "find_teacher school ''mchen''
   \<and> ObjectId ''not-an-id'' = None
   \<and> delete_announcement ''not-an-id'' ''mchen'' school
       = (Inl (HTTPException 400 ''Invalid announcement ID''), school)
   \<and> ObjectId ''507f1f77bcf86cd7994390ff'' = Some (ObjId ''507f1f77bcf86cd7994390ff'')
   \<and> ObjId ''507f1f77bcf86cd7994390ff'' \<notin> doc_id ` set (announcements_collection school)
   \<and> delete_announcement ''507f1f77bcf86cd7994390ff'' ''mchen'' school
       = (Inl (HTTPException 404 ''Announcement not found''), school)
   \<and> ObjectId ''507f1f77bcf86cd79943 90 '' = Some (ObjId ''507f1f77bcf86cd7994390'')
   \<and> ObjId ''507f1f77bcf86cd7994390'' \<notin> doc_id ` set (announcements_collection school)
   \<and> delete_announcement ''507f1f77bcf86cd79943 90 '' ''mchen'' school
       = (Inl (HTTPException 404 ''Announcement not found''), school)
   \<and> ObjectId ''507f1f77bcf86cd799439012'' = Some (ObjId ''507f1f77bcf86cd799439012'')
   \<and> ObjId ''507f1f77bcf86cd799439012'' \<in> doc_id ` set (announcements_collection school)
   \<and> distinct (map doc_id (announcements_collection school))
   \<and> delete_announcement ''507f1f77bcf86cd799439012'' ''mchen'' school
       = (Inr (Message ''Announcement deleted successfully''),
          school\<lparr>announcements_collection := [exams, retired, fair, picnic, autumn]\<rparr>)
   \<and> delete_announcement ''507f1f77bcf86cd799439012'' ''mchen''
        (school\<lparr>announcements_collection := [exams, retired, fair, picnic, autumn]\<rparr>)
       = (Inl (HTTPException 404 ''Announcement not found''),
          school\<lparr>announcements_collection := [exams, retired, fair, picnic, autumn]\<rparr>)"
proof -
  note invalid = delete_outcomes [where db = school and teacher_username = "''mchen''"
      and announcement_id = "''not-an-id''", THEN conjunct1, THEN mp]
  note missing = delete_outcomes [where db = school and teacher_username = "''mchen''"
      and announcement_id = "''507f1f77bcf86cd7994390ff''",
      THEN conjunct2, THEN conjunct1, THEN spec, THEN mp]
  note spaced = delete_outcomes [where db = school and teacher_username = "''mchen''"
      and announcement_id = "''507f1f77bcf86cd79943 90 ''",
      THEN conjunct2, THEN conjunct1, THEN spec, THEN mp]
  note again = delete_outcomes [where db = school and teacher_username = "''mchen''"
      and announcement_id = "''507f1f77bcf86cd799439012''",
      THEN conjunct2, THEN conjunct2, THEN conjunct2, THEN conjunct1, THEN spec, THEN mp]
  have bad: "delete_announcement ''not-an-id'' ''mchen'' school
       = (Inl (HTTPException 400 ''Invalid announcement ID''), school)"
    by (rule invalid) (intro conjI school_teachers(1) ObjectId_examples(1))
  have absent: "delete_announcement ''507f1f77bcf86cd7994390ff'' ''mchen'' school
       = (Inl (HTTPException 404 ''Announcement not found''), school)"
  proof (rule missing)
    show "find_teacher school ''mchen''
        \<and> ObjectId ''507f1f77bcf86cd7994390ff'' = Some (ObjId ''507f1f77bcf86cd7994390ff'')
        \<and> ObjId ''507f1f77bcf86cd7994390ff'' \<notin> doc_id ` set (announcements_collection school)"
      by (intro conjI) (rule school_teachers(1) ObjectId_examples(2) missing_id)+
  qed
  have short: "delete_announcement ''507f1f77bcf86cd79943 90 '' ''mchen'' school
       = (Inl (HTTPException 404 ''Announcement not found''), school)"
  proof (rule spaced)
    show "find_teacher school ''mchen''
        \<and> ObjectId ''507f1f77bcf86cd79943 90 '' = Some (ObjId ''507f1f77bcf86cd7994390'')
        \<and> ObjId ''507f1f77bcf86cd7994390'' \<notin> doc_id ` set (announcements_collection school)"
      by (intro conjI) (rule school_teachers(1) ObjectId_examples(5) spaced_id)+
  qed
  have "delete_announcement ''507f1f77bcf86cd799439012'' ''mchen''
          (snd (delete_announcement ''507f1f77bcf86cd799439012'' ''mchen'' school))
       = (Inl (HTTPException 404 ''Announcement not found''),
          snd (delete_announcement ''507f1f77bcf86cd799439012'' ''mchen'' school))"
  proof (rule again)
    show "find_teacher school ''mchen''
        \<and> ObjectId ''507f1f77bcf86cd799439012'' = Some (ObjId ''507f1f77bcf86cd799439012'')
        \<and> ObjId ''507f1f77bcf86cd799439012'' \<in> doc_id ` set (announcements_collection school)
        \<and> distinct (map doc_id (announcements_collection school))"
      by (intro conjI)
        (rule school_teachers(1) ObjectId_examples(3) closure_stored school_distinct)+
  qed
  then have twice: "delete_announcement ''507f1f77bcf86cd799439012'' ''mchen''
        (school\<lparr>announcements_collection := [exams, retired, fair, picnic, autumn]\<rparr>)
       = (Inl (HTTPException 404 ''Announcement not found''),
          school\<lparr>announcements_collection := [exams, retired, fair, picnic, autumn]\<rparr>)"
    by (simp only: closure_deleted snd_conv)
  show ?thesis
    by (intro conjI)
      (rule school_teachers(1) ObjectId_examples bad missing_id absent spaced_id short
        closure_stored school_distinct closure_deleted twice)+
qed

text \<open>
  The claim as it was stated fails: a delete with an invalid identifier is answered with
  status 400, "Invalid announcement ID", and that is not the status of not-found, 404, with
  which a delete of a missing record is answered.
\<close>

theorem delete_invalid_id_counterexample:
  "ObjectId ''not-an-id'' = None
   \<and> fst (delete_announcement ''not-an-id'' ''mchen'' school)
       = Inl (HTTPException 400 ''Invalid announcement ID'')
   \<and> fst (delete_announcement ''507f1f77bcf86cd7994390ff'' ''mchen'' school)
       = Inl (HTTPException 404 ''Announcement not found'')
   \<and> status_code (HTTPException 400 ''Invalid announcement ID'')
       \<noteq> status_code (HTTPException 404 ''Announcement not found'')"
proof -
  have invalid: "delete_announcement ''not-an-id'' ''mchen'' school
      = (Inl (HTTPException 400 ''Invalid announcement ID''), school)"
    by (simp add: delete_announcement_def school_teachers ObjectId_examples(1))
  have missing: "delete_announcement ''507f1f77bcf86cd7994390ff'' ''mchen'' school
      = (Inl (HTTPException 404 ''Announcement not found''), school)"
    using delete_result [OF school_teachers(1) ObjectId_examples(2)]
      delete_one_missing [OF missing_id]
    by simp
  show ?thesis
    by (simp add: invalid missing ObjectId_examples(1))
qed

subsection \<open>What create and update store\<close>

lemma prepare_update_valid:
  "prepare_update items acc = Inr update_data \<Longrightarrow> (k, PyStr s) \<in> set items \<Longrightarrow>
   k = ''start_date'' \<or> k = ''end_date'' \<Longrightarrow> s \<noteq> [] \<Longrightarrow> strptime s \<noteq> None"
  by (induction items acc rule: prepare_update.induct) (auto split: if_splits)

lemma fold_set_title:
  "''title'' \<notin> fst ` set after \<Longrightarrow>
     title (fold set_field (before @ (''title'', PyStr s) # after) a) = s"
  by (simp add: fold_set_field_title)

lemma fold_set_start_date:
  "''start_date'' \<notin> fst ` set after \<Longrightarrow>
     start_date (fold set_field (before @ (''start_date'', PyStr s) # after) a) = Some s"
  by (simp add: fold_set_field_start_date)

lemma fold_set_end_date:
  "''end_date'' \<notin> fst ` set after \<Longrightarrow>
     end_date (fold set_field (before @ (''end_date'', PyStr s) # after) a) = s"
  by (simp add: fold_set_field_end_date)

lemma updated_title:
  assumes "u_title d = Val s"
  shows "title (fold set_field (filter (\<lambda>kv. snd kv \<noteq> PyNone) (dict_exclude_unset d)) a) = s"
proof -
  let ?F = "\<lambda>items. filter (\<lambda>kv. snd kv \<noteq> PyNone) items"
  let ?after = "?F (item ''message'' PyStr (u_message d)) @ ?F (item ''priority'' PyStr (u_priority d))
      @ ?F (item ''start_date'' PyStr (u_start_date d)) @ ?F (item ''end_date'' PyStr (u_end_date d))
      @ ?F (item ''is_active'' PyBool (u_is_active d))"
  have split: "?F (dict_exclude_unset d) = [] @ (''title'', PyStr s) # ?after"
    by (simp add: dict_exclude_unset_def assms)
  have "''title'' \<notin> fst ` set ?after"
    by (simp only: set_append image_Un Un_iff item_keys, simp)
  then show ?thesis
    unfolding split by (rule fold_set_title)
qed

lemma updated_start_date:
  assumes "u_start_date d = Val s"
  shows "start_date (fold set_field (filter (\<lambda>kv. snd kv \<noteq> PyNone) (dict_exclude_unset d)) a)
    = Some s"
proof -
  let ?F = "\<lambda>items. filter (\<lambda>kv. snd kv \<noteq> PyNone) items"
  let ?before = "?F (item ''title'' PyStr (u_title d)) @ ?F (item ''message'' PyStr (u_message d))
      @ ?F (item ''priority'' PyStr (u_priority d))"
  let ?after = "?F (item ''end_date'' PyStr (u_end_date d))
      @ ?F (item ''is_active'' PyBool (u_is_active d))"
  have split: "?F (dict_exclude_unset d) = ?before @ (''start_date'', PyStr s) # ?after"
    by (simp add: dict_exclude_unset_def assms)
  have "''start_date'' \<notin> fst ` set ?after"
    by (simp only: set_append image_Un Un_iff item_keys, simp)
  then show ?thesis
    unfolding split by (rule fold_set_start_date)
qed

lemma updated_end_date:
  assumes "u_end_date d = Val s"
  shows "end_date (fold set_field (filter (\<lambda>kv. snd kv \<noteq> PyNone) (dict_exclude_unset d)) a) = s"
proof -
  let ?F = "\<lambda>items. filter (\<lambda>kv. snd kv \<noteq> PyNone) items"
  let ?before = "?F (item ''title'' PyStr (u_title d)) @ ?F (item ''message'' PyStr (u_message d))
      @ ?F (item ''priority'' PyStr (u_priority d)) @ ?F (item ''start_date'' PyStr (u_start_date d))"
  let ?after = "?F (item ''is_active'' PyBool (u_is_active d))"
  have split: "?F (dict_exclude_unset d) = ?before @ (''end_date'', PyStr s) # ?after"
    by (simp add: dict_exclude_unset_def assms)
  have "''end_date'' \<notin> fst ` set ?after"
    by (simp only: item_keys, simp)
  then show ?thesis
    unfolding split by (rule fold_set_end_date)
qed

lemma update_stored:
  assumes "update_announcement announcement_id d t db = (Inr resp, db')"
    and "ObjectId announcement_id = Some oid"
  obtains a where "find_one oid (announcements_collection db) = Some a"
    and "find_one oid (announcements_collection db')
      = Some (fold set_field (filter (\<lambda>kv. snd kv \<noteq> PyNone) (dict_exclude_unset d)) a)"
    and "prepare_update (dict_exclude_unset d) []
      = Inr (filter (\<lambda>kv. snd kv \<noteq> PyNone) (dict_exclude_unset d))"
proof -
  let ?ud = "filter (\<lambda>kv. snd kv \<noteq> PyNone) (dict_exclude_unset d)"
  from assms obtain a where a: "find_one oid (announcements_collection db) = Some a"
    and p: "prepare_update (dict_exclude_unset d) [] = Inr ?ud"
    and db': "db' = db\<lparr>announcements_collection :=
           snd (update_one oid ?ud (announcements_collection db))\<rparr>"
    by (elim update_success) simp
  from update_one_found [OF a, of ?ud] db'
  have a': "find_one oid (announcements_collection db') = Some (fold set_field ?ud a)"
    by simp
  from a a' p show ?thesis by (rule that)
qed

text \<open>
  C9, as the code has it. A create that succeeds stores an \<^verbatim>\<open>end_date\<close> that
  \<^verbatim>\<open>strptime\<close> accepts and a \<^verbatim>\<open>start_date\<close> that is null, the empty string, or accepted by
  \<^verbatim>\<open>strptime\<close>. An update that succeeds and carries a \<^verbatim>\<open>start_date\<close> stores that value,
  which is the empty string or accepted by \<^verbatim>\<open>strptime\<close>; an update that succeeds and
  carries a non-empty \<^verbatim>\<open>end_date\<close> stores that value, which \<^verbatim>\<open>strptime\<close> accepts.
\<close>

theorem stored_dates:
  "(\<forall>resp db'. create_announcement now generated body teacher_username db = (Inr resp, db') \<longrightarrow>
      (\<exists>r. announcements_collection db' = announcements_collection db @ [r]
         \<and> end_date r = c_end_date body
         \<and> strptime (end_date r) \<noteq> None
         \<and> start_date r = c_start_date body
         \<and> (start_date r = None \<or> start_date r = Some []
             \<or> (\<exists>s. start_date r = Some s \<and> strptime s \<noteq> None))))
   \<and> (\<forall>resp db' oid s.
        update_announcement announcement_id announcement_data teacher_username db = (Inr resp, db')
        \<and> ObjectId announcement_id = Some oid
        \<and> u_start_date announcement_data = Val s \<longrightarrow>
        (s = [] \<or> strptime s \<noteq> None)
        \<and> (\<exists>r. find_one oid (announcements_collection db') = Some r \<and> start_date r = Some s))
   \<and> (\<forall>resp db' oid s.
        update_announcement announcement_id announcement_data teacher_username db = (Inr resp, db')
        \<and> ObjectId announcement_id = Some oid
        \<and> u_end_date announcement_data = Val s \<and> s \<noteq> [] \<longrightarrow>
        strptime s \<noteq> None
        \<and> (\<exists>r. find_one oid (announcements_collection db') = Some r \<and> end_date r = s))"
proof (intro conjI allI impI)
  fix resp db'
  assume ok: "create_announcement now generated body teacher_username db = (Inr resp, db')"
  let ?r = "with_id (ObjId generated) (announcement_doc_of now body teacher_username)"
  note facts = create_success [OF ok]
  from facts(2) have "strptime (c_end_date body) \<noteq> None"
    by (auto simp: create_dates_raise_def split: if_splits)
  moreover from facts(2) have "c_start_date body = None \<or> c_start_date body = Some []
      \<or> (\<exists>s. c_start_date body = Some s \<and> strptime s \<noteq> None)"
    by (cases "c_start_date body") (auto simp: create_dates_raise_def split: if_splits)
  moreover have "announcements_collection db' = announcements_collection db @ [?r]"
    by (simp add: facts(5))
  ultimately show "\<exists>r. announcements_collection db' = announcements_collection db @ [r]
         \<and> end_date r = c_end_date body
         \<and> strptime (end_date r) \<noteq> None
         \<and> start_date r = c_start_date body
         \<and> (start_date r = None \<or> start_date r = Some []
             \<or> (\<exists>s. start_date r = Some s \<and> strptime s \<noteq> None))"
    by (intro exI [of _ ?r]) simp
next
  fix resp db' oid s
  assume h: "update_announcement announcement_id announcement_data teacher_username db
        = (Inr resp, db')
      \<and> ObjectId announcement_id = Some oid
      \<and> u_start_date announcement_data = Val s"
  then obtain a where
    stored: "find_one oid (announcements_collection db')
      = Some (fold set_field
          (filter (\<lambda>kv. snd kv \<noteq> PyNone) (dict_exclude_unset announcement_data)) a)"
    and prepared: "prepare_update (dict_exclude_unset announcement_data) []
      = Inr (filter (\<lambda>kv. snd kv \<noteq> PyNone) (dict_exclude_unset announcement_data))"
    by (elim conjE update_stored)
  from h have "(''start_date'', PyStr s) \<in> set (dict_exclude_unset announcement_data)"
    by (simp add: dict_exclude_unset_def)
  from prepare_update_valid [OF prepared this]
  show "s = [] \<or> strptime s \<noteq> None"
    by (cases "s = []") simp_all
  from h stored show "\<exists>r. find_one oid (announcements_collection db') = Some r
      \<and> start_date r = Some s"
    by (simp add: updated_start_date)
next
  fix resp db' oid s
  assume h: "update_announcement announcement_id announcement_data teacher_username db
        = (Inr resp, db')
      \<and> ObjectId announcement_id = Some oid
      \<and> u_end_date announcement_data = Val s \<and> s \<noteq> []"
  then obtain a where
    stored: "find_one oid (announcements_collection db')
      = Some (fold set_field
          (filter (\<lambda>kv. snd kv \<noteq> PyNone) (dict_exclude_unset announcement_data)) a)"
    and prepared: "prepare_update (dict_exclude_unset announcement_data) []
      = Inr (filter (\<lambda>kv. snd kv \<noteq> PyNone) (dict_exclude_unset announcement_data))"
    by (elim conjE update_stored)
  from h have "(''end_date'', PyStr s) \<in> set (dict_exclude_unset announcement_data)"
    by (simp add: dict_exclude_unset_def)
  from prepare_update_valid [OF prepared this] h
  show "strptime s \<noteq> None"
    by simp
  from h stored show "\<exists>r. find_one oid (announcements_collection db') = Some r
      \<and> end_date r = s"
    by (simp add: updated_end_date)
qed

lemma new_dates_prepared:
  "prepare_update (dict_exclude_unset new_dates) []
     = Inr [(''start_date'', PyStr ''2024-05-05''), (''end_date'', PyStr ''2024-06-07'')]"
  by (simp add: new_dates_def empty_body_def dict_exclude_unset_def strptime_examples)

lemma new_dates_applied:
  "update_announcement ''507f1f77bcf86cd799439012'' new_dates ''mchen'' school
     = (Inr (Message ''Announcement updated successfully''),
        school\<lparr>announcements_collection :=
          [exams, closure\<lparr>start_date := Some ''2024-05-05'', end_date := ''2024-06-07''\<rparr>,
           retired, fair, picnic, autumn]\<rparr>)"
proof -
  let ?ud = "[(''start_date'', PyStr ''2024-05-05''), (''end_date'', PyStr ''2024-06-07'')]"
  have "fold set_field ?ud closure
      = closure\<lparr>start_date := Some ''2024-05-05'', end_date := ''2024-06-07''\<rparr>"
    by simp
  moreover have "closure\<lparr>start_date := Some ''2024-05-05'', end_date := ''2024-06-07''\<rparr> \<noteq> closure"
    by (simp add: closure_def)
  moreover have "snd (update_one (ObjId ''507f1f77bcf86cd799439012'') ?ud
        (announcements_collection school))
      = [exams, closure\<lparr>start_date := Some ''2024-05-05'', end_date := ''2024-06-07''\<rparr>,
         retired, fair, picnic, autumn]"
    by (simp add: school_defs)
  ultimately show ?thesis
    using update_result [OF school_teachers(1) ObjectId_examples(3) closure_found new_dates_prepared]
    by simp
qed

theorem stored_dates_witness:
  "create_announcement ''2024-05-10T08:30:00'' ''65f0c0ffee0123456789abcd'' assembly ''mchen'' school
     = (Inr (MessageId ''Announcement created successfully'' ''65f0c0ffee0123456789abcd''),
        school\<lparr>announcements_collection := announcements_collection school @
          [with_id (ObjId ''65f0c0ffee0123456789abcd'')
             (announcement_doc_of ''2024-05-10T08:30:00'' assembly ''mchen'')]\<rparr>)
   \<and> (\<exists>r. announcements_collection
             (school\<lparr>announcements_collection := announcements_collection school @
                [with_id (ObjId ''65f0c0ffee0123456789abcd'')
                   (announcement_doc_of ''2024-05-10T08:30:00'' assembly ''mchen'')]\<rparr>)
            = announcements_collection school @ [r]
          \<and> end_date r = ''2024-05-21'' \<and> strptime (end_date r) \<noteq> None
          \<and> start_date r = Some ''2024-05-20'')
   \<and> update_announcement ''507f1f77bcf86cd799439012'' new_dates ''mchen'' school
       = (Inr (Message ''Announcement updated successfully''),
          school\<lparr>announcements_collection :=
            [exams, closure\<lparr>start_date := Some ''2024-05-05'', end_date := ''2024-06-07''\<rparr>,
             retired, fair, picnic, autumn]\<rparr>)
   \<and> ObjectId ''507f1f77bcf86cd799439012'' = Some (ObjId ''507f1f77bcf86cd799439012'')
   \<and> u_start_date new_dates = Val ''2024-05-05''
   \<and> u_end_date new_dates = Val ''2024-06-07''
   \<and> strptime ''2024-05-05'' \<noteq> None
   \<and> strptime ''2024-06-07'' \<noteq> None
   \<and> (\<exists>r. find_one (ObjId ''507f1f77bcf86cd799439012'')
              [exams, closure\<lparr>start_date := Some ''2024-05-05'', end_date := ''2024-06-07''\<rparr>,
               retired, fair, picnic, autumn] = Some r
          \<and> start_date r = Some ''2024-05-05'')
   \<and> (\<exists>r. find_one (ObjId ''507f1f77bcf86cd799439012'')
              [exams, closure\<lparr>start_date := Some ''2024-05-05'', end_date := ''2024-06-07''\<rparr>,
               retired, fair, picnic, autumn] = Some r
          \<and> end_date r = ''2024-06-07'')"
proof -
  let ?created = "school\<lparr>announcements_collection := announcements_collection school @
      [with_id (ObjId ''65f0c0ffee0123456789abcd'')
         (announcement_doc_of ''2024-05-10T08:30:00'' assembly ''mchen'')]\<rparr>"
  let ?coll = "[exams, closure\<lparr>start_date := Some ''2024-05-05'', end_date := ''2024-06-07''\<rparr>,
      retired, fair, picnic, autumn]"
  note on_create = stored_dates [THEN conjunct1, THEN spec, THEN spec, THEN mp, OF assembly_created]
  then obtain r where r: "announcements_collection ?created = announcements_collection school @ [r]"
      "end_date r = c_end_date assembly" "strptime (end_date r) \<noteq> None"
      "start_date r = c_start_date assembly"
    by (elim exE conjE)
  then have created: "\<exists>r. announcements_collection ?created = announcements_collection school @ [r]
      \<and> end_date r = ''2024-05-21'' \<and> strptime (end_date r) \<noteq> None
      \<and> start_date r = Some ''2024-05-20''"
    by (intro exI [of _ r]) (simp add: assembly_def)
  have fields: "u_start_date new_dates = Val ''2024-05-05''" "u_end_date new_dates = Val ''2024-06-07''"
    by (simp_all add: new_dates_def empty_body_def)
  have start_h: "update_announcement ''507f1f77bcf86cd799439012'' new_dates ''mchen'' school
        = (Inr (Message ''Announcement updated successfully''),
           school\<lparr>announcements_collection := ?coll\<rparr>)
      \<and> ObjectId ''507f1f77bcf86cd799439012'' = Some (ObjId ''507f1f77bcf86cd799439012'')
      \<and> u_start_date new_dates = Val ''2024-05-05''"
    by (intro conjI) (rule new_dates_applied ObjectId_examples(3) fields)+
  have end_h: "update_announcement ''507f1f77bcf86cd799439012'' new_dates ''mchen'' school
        = (Inr (Message ''Announcement updated successfully''),
           school\<lparr>announcements_collection := ?coll\<rparr>)
      \<and> ObjectId ''507f1f77bcf86cd799439012'' = Some (ObjId ''507f1f77bcf86cd799439012'')
      \<and> u_end_date new_dates = Val ''2024-06-07'' \<and> ''2024-06-07'' \<noteq> []"
    by (intro conjI) (rule new_dates_applied ObjectId_examples(3) fields | simp)+
  note on_start = stored_dates [THEN conjunct2, THEN conjunct1, THEN spec, THEN spec, THEN spec,
      THEN spec, THEN mp, OF start_h]
  note on_end = stored_dates [THEN conjunct2, THEN conjunct2, THEN spec, THEN spec, THEN spec,
      THEN spec, THEN mp, OF end_h]
  from on_start have s1: "strptime ''2024-05-05'' \<noteq> None"
    and s2: "\<exists>r. find_one (ObjId ''507f1f77bcf86cd799439012'') ?coll = Some r
      \<and> start_date r = Some ''2024-05-05''"
    by simp_all
  from on_end have e1: "strptime ''2024-06-07'' \<noteq> None"
    and e2: "\<exists>r. find_one (ObjId ''507f1f77bcf86cd799439012'') ?coll = Some r
      \<and> end_date r = ''2024-06-07''"
    by simp_all
  show ?thesis
    by (intro conjI)
      (rule assembly_created created new_dates_applied ObjectId_examples(3) fields s1 s2 e1 e2)+
qed

text \<open>
  The claim as it was stated fails: an update with the empty string as \<^verbatim>\<open>start_date\<close>
  succeeds, and the record then holds an empty \<^verbatim>\<open>start_date\<close>, which is present and is not
  a date.
\<close>

theorem blank_start_date_counterexample:
  "u_start_date clear_start = Val []
   \<and> strptime [] = None
   \<and> fst (update_announcement ''507f1f77bcf86cd799439012'' clear_start ''mchen'' school)
       = Inr (Message ''Announcement updated successfully'')
   \<and> find_one (ObjId ''507f1f77bcf86cd799439012'')
        (announcements_collection
          (snd (update_announcement ''507f1f77bcf86cd799439012'' clear_start ''mchen'' school)))
       = Some (closure\<lparr>start_date := Some []\<rparr>)"
proof -
  have blank: "u_start_date clear_start = Val []"
    by (simp add: clear_start_def empty_body_def)
  have prepared: "prepare_update (dict_exclude_unset clear_start) [] = Inr [(''start_date'', PyStr [])]"
    by (simp add: clear_start_def empty_body_def dict_exclude_unset_def)
  have changed: "fold set_field [(''start_date'', PyStr [])] closure \<noteq> closure"
    by (simp add: closure_def)
  have "snd (update_one (ObjId ''507f1f77bcf86cd799439012'') [(''start_date'', PyStr [])]
        (announcements_collection school))
      = [exams, closure\<lparr>start_date := Some []\<rparr>, retired, fair, picnic, autumn]"
    by (simp add: school_defs)
  with update_result [OF school_teachers(1) ObjectId_examples(3) closure_found prepared] changed
  have "update_announcement ''507f1f77bcf86cd799439012'' clear_start ''mchen'' school
      = (Inr (Message ''Announcement updated successfully''),
         school\<lparr>announcements_collection :=
           [exams, closure\<lparr>start_date := Some []\<rparr>, retired, fair, picnic, autumn]\<rparr>)"
    by simp
  moreover have "find_one (ObjId ''507f1f77bcf86cd799439012'')
      [exams, closure\<lparr>start_date := Some []\<rparr>, retired, fair, picnic, autumn]
      = Some (closure\<lparr>start_date := Some []\<rparr>)"
    by (simp add: find_one_def exams_def closure_def)
  ultimately show ?thesis
    using blank strptime_examples(1) by simp
qed

subsection \<open>The title\<close>

text \<open>
  C10, as the code has it. The title is stored as it is supplied, the empty string
  included: a create that succeeds stores the title of the request body, and an update
  that succeeds and carries a title stores that title. Neither checks that it is non-empty.
\<close>

theorem title_stored_as_supplied:
  "(\<forall>resp db'. create_announcement now generated body teacher_username db = (Inr resp, db') \<longrightarrow>
      (\<exists>r. announcements_collection db' = announcements_collection db @ [r]
         \<and> title r = c_title body))
   \<and> (\<forall>resp db' oid s.
        update_announcement announcement_id announcement_data teacher_username db = (Inr resp, db')
        \<and> ObjectId announcement_id = Some oid
        \<and> u_title announcement_data = Val s \<longrightarrow>
        (\<exists>r. find_one oid (announcements_collection db') = Some r \<and> title r = s))"
proof (intro conjI allI impI)
  fix resp db'
  assume ok: "create_announcement now generated body teacher_username db = (Inr resp, db')"
  let ?r = "with_id (ObjId generated) (announcement_doc_of now body teacher_username)"
  have "announcements_collection db' = announcements_collection db @ [?r]"
    by (simp add: create_success(5) [OF ok])
  then show "\<exists>r. announcements_collection db' = announcements_collection db @ [r]
      \<and> title r = c_title body"
    by (intro exI [of _ ?r]) simp
next
  fix resp db' oid s
  assume h: "update_announcement announcement_id announcement_data teacher_username db
        = (Inr resp, db')
      \<and> ObjectId announcement_id = Some oid
      \<and> u_title announcement_data = Val s"
  then obtain a where
    stored: "find_one oid (announcements_collection db')
      = Some (fold set_field
          (filter (\<lambda>kv. snd kv \<noteq> PyNone) (dict_exclude_unset announcement_data)) a)"
    by (elim conjE update_stored)
  with h show "\<exists>r. find_one oid (announcements_collection db') = Some r \<and> title r = s"
    by (simp add: updated_title)
qed

theorem title_stored_as_supplied_witness:
  "create_announcement ''2024-05-10T08:30:00'' ''65f0c0ffee0123456789abcd'' assembly ''mchen'' school
     = (Inr (MessageId ''Announcement created successfully'' ''65f0c0ffee0123456789abcd''),
        school\<lparr>announcements_collection := announcements_collection school @
          [with_id (ObjId ''65f0c0ffee0123456789abcd'')
             (announcement_doc_of ''2024-05-10T08:30:00'' assembly ''mchen'')]\<rparr>)
   \<and> (\<exists>r. announcements_collection
             (school\<lparr>announcements_collection := announcements_collection school @
                [with_id (ObjId ''65f0c0ffee0123456789abcd'')
                   (announcement_doc_of ''2024-05-10T08:30:00'' assembly ''mchen'')]\<rparr>)
            = announcements_collection school @ [r]
          \<and> title r = ''Assembly'')
   \<and> update_announcement ''507f1f77bcf86cd799439012'' rename ''mchen'' school
     = (Inr (Message ''Announcement updated successfully''),
        school\<lparr>announcements_collection :=
          [exams, closure\<lparr>title := ''Snow day, all week''\<rparr>, retired, fair, picnic, autumn]\<rparr>)
   \<and> ObjectId ''507f1f77bcf86cd799439012'' = Some (ObjId ''507f1f77bcf86cd799439012'')
   \<and> u_title rename = Val ''Snow day, all week''
   \<and> (\<exists>r. find_one (ObjId ''507f1f77bcf86cd799439012'')
              [exams, closure\<lparr>title := ''Snow day, all week''\<rparr>, retired, fair, picnic, autumn]
            = Some r
          \<and> title r = ''Snow day, all week'')"
proof -
  let ?created = "school\<lparr>announcements_collection := announcements_collection school @
      [with_id (ObjId ''65f0c0ffee0123456789abcd'')
         (announcement_doc_of ''2024-05-10T08:30:00'' assembly ''mchen'')]\<rparr>"
  let ?coll = "[exams, closure\<lparr>title := ''Snow day, all week''\<rparr>, retired, fair, picnic, autumn]"
  note on_create = title_stored_as_supplied [THEN conjunct1, THEN spec, THEN spec, THEN mp,
      OF assembly_created]
  then obtain r where "announcements_collection ?created = announcements_collection school @ [r]"
      "title r = c_title assembly"
    by (elim exE conjE)
  then have created: "\<exists>r. announcements_collection ?created = announcements_collection school @ [r]
      \<and> title r = ''Assembly''"
    by (intro exI [of _ r]) (simp add: assembly_def)
  have field: "u_title rename = Val ''Snow day, all week''"
    by (simp add: rename_def empty_body_def)
  have h: "update_announcement ''507f1f77bcf86cd799439012'' rename ''mchen'' school
        = (Inr (Message ''Announcement updated successfully''),
           school\<lparr>announcements_collection := ?coll\<rparr>)
      \<and> ObjectId ''507f1f77bcf86cd799439012'' = Some (ObjId ''507f1f77bcf86cd799439012'')
      \<and> u_title rename = Val ''Snow day, all week''"
    by (intro conjI) (rule rename_applied ObjectId_examples(3) field)+
  note on_update = title_stored_as_supplied [THEN conjunct2, THEN spec, THEN spec, THEN spec,
      THEN spec, THEN mp, OF h]
  then have updated: "\<exists>r. find_one (ObjId ''507f1f77bcf86cd799439012'') ?coll = Some r
      \<and> title r = ''Snow day, all week''"
    by simp
  show ?thesis
    by (intro conjI)
      (rule assembly_created created rename_applied ObjectId_examples(3) field updated)+
qed

text \<open>
  The claim as it was stated fails: a create whose title is the empty string succeeds and
  the record is stored with an empty title.
\<close>

theorem empty_title_counterexample:
  "c_title untitled = []
   \<and> fst (create_announcement ''2024-05-10T08:30:00'' ''65f0c0ffee0123456789abcd'' untitled
        ''mchen'' school)
       = Inr (MessageId ''Announcement created successfully'' ''65f0c0ffee0123456789abcd'')
   \<and> map title (announcements_collection
        (snd (create_announcement ''2024-05-10T08:30:00'' ''65f0c0ffee0123456789abcd'' untitled
           ''mchen'' school)))
       = [''Exam week'', ''Snow day'', ''Old notice'', ''Science fair'', ''Picnic'',
          ''Autumn term'', []]"
  by (simp add: create_announcement_def create_dates_raise_def school_teachers
      strptime_examples untitled_def assembly_def insert_one_def school_ids
      announcement_doc_of_def with_id_def, simp add: school_defs)

end
